theory Spec2Isabelle
  imports Main
begin

section \<open>C strings and the string helpers used by the filter core\<close>

text \<open>
  A C string held in a \<open>char\<close> array is represented by its payload: the bytes before the
  first NUL. The terminator then sits at index \<open>length s\<close> of the array, so a string \<open>s\<close>
  held in an array of \<open>n\<close> bytes is null-terminated inside the array exactly when
  \<open>length s < n\<close>.
\<close>

type_synonym bytes = string

definition NL :: char where
  "NL = CHR 0x0A"

definition NUL :: char where
  "NUL = CHR 0x00"

text \<open>\<open>isspace\<close> of the C locale: space, \<open>\t\<close>, \<open>\n\<close>, \<open>\v\<close>, \<open>\f\<close>, \<open>\r\<close>.\<close>

definition isspace :: "char \<Rightarrow> bool" where
  "isspace c \<longleftrightarrow>
     c = CHR 0x20 \<or> c = CHR 0x09 \<or> c = CHR 0x0A \<or> c = CHR 0x0B \<or> c = CHR 0x0C \<or> c = CHR 0x0D"

text \<open>The string a buffer holds when read as a C string: everything before the first NUL.\<close>

definition c_str :: "bytes \<Rightarrow> string" where
  "c_str bs = takeWhile (\<lambda>c. c \<noteq> NUL) bs"

text \<open>
  Modelled from the spec: \<open>trim_start\<close> of \<open>stringx.h\<close>, whose source is not part of the
  files at hand ("Trim leading whitespace"). It returns the pointer past the leading
  whitespace, here the remaining suffix.
\<close>

definition trim_start :: "string \<Rightarrow> string" where
  "trim_start s = dropWhile isspace s"

text \<open>
  Modelled from the spec: \<open>trim_end\<close> of \<open>stringx.h\<close> ("trims trailing whitespace"),
  which cuts the string in place before its trailing whitespace.
\<close>

definition trim_end :: "string \<Rightarrow> string" where
  "trim_end s = rev (dropWhile isspace (rev s))"

text \<open>
  Modelled from the spec: \<open>strlcat\<close> of \<open>compat.h\<close> ("Append operations respect the
  accumulator's bounded capacity (classical size-safe string catenation)"): as many bytes
  of \<open>src\<close> are appended to \<open>dst\<close> as leave room for the terminator in \<open>siz\<close> bytes; a
  destination with no terminator in its first \<open>siz\<close> bytes is left alone.
\<close>

definition strlcat :: "string \<Rightarrow> string \<Rightarrow> nat \<Rightarrow> string" where
  "strlcat dst src siz =
     (if length dst < siz then dst @ take (siz - 1 - length dst) src else dst)"

text \<open>
  Modelled from the spec: \<open>strlcpy\<close> of \<open>compat.h\<close>, the size-safe copy that goes with
  \<open>strlcat\<close>: at most \<open>siz - 1\<close> bytes of \<open>src\<close> replace \<open>dst\<close>.
\<close>

definition strlcpy :: "string \<Rightarrow> string \<Rightarrow> nat \<Rightarrow> string" where
  "strlcpy dst src siz = (if 0 < siz then take (siz - 1) src else dst)"

text \<open>\<open>strrchr(s, c)\<close>: the suffix of \<open>s\<close> that starts at the last \<open>c\<close>, \<open>None\<close> for \<open>NULL\<close>.\<close>

fun strrchr :: "string \<Rightarrow> char \<Rightarrow> string option" where
  "strrchr [] c = None"
| "strrchr (x # xs) c =
     (case strrchr xs c of
        Some t \<Rightarrow> Some t
      | None \<Rightarrow> if x = c then Some (x # xs) else None)"

text \<open>\<open>strncmp(buf, resp, strlen(resp)) == 0\<close>.\<close>

definition starts_with :: "string \<Rightarrow> string \<Rightarrow> bool" where
  "starts_with buf resp \<longleftrightarrow> take (length resp) buf = resp"

text \<open>\<open>snprintf(str, sizeof str, ...)\<close> into \<open>char str[4096]\<close>: the output is cut to 4095 bytes.\<close>

definition snprintf_str :: "string \<Rightarrow> string" where
  "snprintf_str s = take 4095 s"

section \<open>The rejection-reason accumulator\<close>

definition REJECTED :: string where
  "REJECTED = ''Content Rejected''"

text \<open>
  The backward walk of \<open>buffer_reject_message\<close>:
  \<^verbatim>\<open>while(t > data && isspace(*(t - 1))) { t--; if(*t == '\n') newline = 1; }\<close>
  with \<open>t\<close> written as an offset into \<open>data\<close>.
\<close>

fun walk_back :: "string \<Rightarrow> nat \<Rightarrow> bool \<Rightarrow> nat \<times> bool" where
  "walk_back data 0 newline = (0, newline)"
| "walk_back data (Suc t) newline =
     (if isspace (data ! t)
      then walk_back data t (newline \<or> data ! t = NL)
      else (Suc t, newline))"

text \<open>
  \<open>buffer_reject_message(data, buf, buflen)\<close>. The result is the list of indices at which
  the function subscripts \<open>buf\<close> for reading (the test \<open>buf[strlen(buf) - 1] == '\n'\<close>),
  and the new contents of \<open>buf\<close>. When \<open>buf\<close> is empty that test reads index \<open>-1\<close>, the
  byte in front of the array; its value is not determined by the program and is the
  parameter \<open>stray\<close>.
\<close>

definition buffer_reject_message :: "char \<Rightarrow> string \<Rightarrow> string \<Rightarrow> nat \<Rightarrow> int list \<times> string" where
  "buffer_reject_message stray data buf buflen =
     (case walk_back data (length data) False of (t, newline) \<Rightarrow>
        (case
           (if 0 < t then
              (let data1 = (if newline then take t data else data) in
               case strrchr data1 NL of
                 None \<Rightarrow>
                   (let line = trim_start data1;
                        i = int (length buf) - 1;
                        c = (if i < 0 then stray else buf ! nat i);
                        buf1 = (if c = NL then [] else buf)
                    in ([i], strlcat buf1 line buflen))
               | Some s \<Rightarrow> ([], strlcat [] (trim_start s) buflen))
            else ([], buf))
         of (reads, buf2) \<Rightarrow>
           (reads, if newline then strlcat buf2 [NL] buflen else buf2)))"

text \<open>\<open>final_reject_message(buf, buflen)\<close>.\<close>

definition final_reject_message :: "string \<Rightarrow> nat \<Rightarrow> string" where
  "final_reject_message buf buflen =
     (if buf = [] then strlcpy buf REJECTED buflen else trim_end buf)"

text \<open>
  The pumps fold every chunk read from the child's standard error into \<open>char ebuf[256]\<close>,
  which starts out zeroed: \<open>buffer_reject_message(obuf, ebuf, sizeof(ebuf))\<close>.
\<close>

fun fold_reject :: "char \<Rightarrow> string list \<Rightarrow> string \<Rightarrow> string" where
  "fold_reject stray [] buf = buf"
| "fold_reject stray (data # rest) buf =
     fold_reject stray rest (snd (buffer_reject_message stray data buf 256))"

section \<open>Configuration, message context and the environment\<close>

text \<open>The \<open>FILTER_*\<close> enumeration and the defaults set up by \<open>main\<close>.\<close>

definition FILTER_PIPE :: int where
  "FILTER_PIPE = 1"

definition FILTER_FILE :: int where
  "FILTER_FILE = 2"

definition FILTER_SMTP :: int where
  "FILTER_SMTP = 3"

definition FILTER_REJECT :: int where
  "FILTER_REJECT = 4"

definition DEFAULT_REJECT :: string where
  "DEFAULT_REJECT = ''530 Email Rejected''"

definition DEFAULT_TIMEOUT :: int where
  "DEFAULT_TIMEOUT = 30"

definition POLL_TIME :: int where
  "POLL_TIME = 20"

definition SIGKILL :: int where
  "SIGKILL = 9"

definition SIGTERM :: int where
  "SIGTERM = 15"

text \<open>
  \<open>pxstate_t\<close>, the global \<open>g_pxstate\<close>. A \<open>const char*\<close> that may be \<open>NULL\<close> is an
  option; \<open>timeout\<close> is the \<open>tv_sec\<close> field of the \<open>struct timeval\<close>.
\<close>

record pxstate =
  filter_type :: int
  command :: "string option"
  reject :: string
  timeout :: int
  directory :: string
  header :: "string option"

definition default_pxstate :: pxstate where
  "default_pxstate =
     \<lparr>filter_type = FILTER_PIPE, command = None, reject = DEFAULT_REJECT,
      timeout = DEFAULT_TIMEOUT, directory = ''/tmp/'', header = None\<rparr>"

text \<open>The fields of the framework's message context \<open>spctx_t\<close> that the core reads.\<close>

record spctx =
  sender :: "string option"
  recipients :: "string option"
  helo :: "string option"
  peername :: string
  cachename :: string

datatype loglevel = LOG_CRIT | LOG_ERR | LOG_WARNING | LOG_INFO | LOG_DEBUG

datatype errno = EPIPE | EAGAIN | EINTR | ECHILD | ESRCH | EIO | EBADF | EPERM | EINVAL

text \<open>
  The instructions the core gives to the framework. Their code is not part of the core:
  a call is recorded in the order it is made, and its return value is taken from the
  environment. \<open>Sp_write_data (Some [])\<close> is \<open>sp_write_data(sp, obuf, 0)\<close>, which opens the
  cache, \<open>Sp_write_data None\<close> is \<open>sp_write_data(sp, NULL, 0)\<close>, which closes it.
\<close>

datatype sp_call =
    Sp_fail_msg "string option"
  | Sp_fail_data "string option"
  | Sp_start_data
  | Sp_cache_data
  | Sp_done_data "string option"
  | Sp_write_data "bytes option"

text \<open>What \<open>waitpid(pid, status, WNOHANG)\<close> and \<open>kill\<close> report.\<close>

datatype wait_res =
    W_none
  | W_err errno
  | W_pid int

datatype kill_res =
    K_ok
  | K_err errno

text \<open>
  The part of the environment that does not change during a dispatch: what framework
  calls and system calls return.
  \<^item> \<open>sp_ret c\<close>: the return value of the framework call \<open>c\<close>;
  \<^item> \<open>os_pipe_i\<close>, \<open>os_pipe_o\<close>, \<open>os_pipe_e\<close>: the descriptors \<open>(read end, write end)\<close> that
    \<open>pipe\<close> creates, \<open>None\<close> when it fails; \<open>os_fork\<close>: the pid \<open>fork\<close> returns to the
    parent, \<open>-1\<close> when it fails;
  \<^item> \<open>uninit_infd\<close>, \<open>uninit_outfd\<close>, \<open>uninit_errfd\<close>: the values of the locals that
    \<open>process_pipe_command\<close> declares without initialising them;
  \<^item> \<open>stray_byte\<close>: the byte in front of \<open>ebuf\<close>;
  \<^item> \<open>net_socket\<close>, \<open>net_connect\<close>: what \<open>socket\<close> and \<open>connect\<close> return;
    \<open>net_send_ret sent d\<close>: what \<open>send\<close> returns for the data \<open>d\<close> after \<open>sent\<close> went out;
  \<^item> \<open>cache_open\<close>: what \<open>open(sp->cachename, O_RDONLY)\<close> returns; \<open>cache_file\<close>: the bytes
    of that file; \<open>cache_read_fails off\<close>: whether the \<open>read\<close> at offset \<open>off\<close> fails.
\<close>

record env =
  sp_ret :: "sp_call \<Rightarrow> int"
  os_pipe_i :: "(int \<times> int) option"
  os_pipe_o :: "(int \<times> int) option"
  os_pipe_e :: "(int \<times> int) option"
  os_fork :: int
  uninit_infd :: int
  uninit_outfd :: int
  uninit_errfd :: int
  stray_byte :: char
  net_socket :: int
  net_connect :: int
  net_send_ret :: "string list \<Rightarrow> string \<Rightarrow> int"
  cache_open :: int
  cache_file :: bytes
  cache_read_fails :: "nat \<Rightarrow> bool"

text \<open>
  The part that changes: what the core has done so far (log fields, diagnostics, framework
  calls, descriptors closed, signals sent, data sent to the relay) and what is still to
  come from outside (the chunks \<open>sp_read_data\<close> will return, \<open>None\<close> for \<open>-1\<close> and an empty
  chunk for end of data; the results of the coming \<open>waitpid\<close> and \<open>kill\<close> calls; what the
  coming \<open>recv\<close> calls return, \<open>None\<close> for \<open>-1\<close>).
\<close>

record world =
  sp_log :: "(string \<times> string) list"
  sp_msgs :: "(loglevel \<times> string) list"
  sp_calls :: "sp_call list"
  sp_source :: "bytes option list"
  fd_closed :: "int list"
  signals :: "(int \<times> int) list"
  os_wait :: "wait_res list"
  os_kill :: "kill_res list"
  net_sent :: "string list"
  net_recv :: "bytes option list"

definition sp_add_log :: "world \<Rightarrow> string \<Rightarrow> string \<Rightarrow> world" where
  "sp_add_log w k v = w\<lparr>sp_log := sp_log w @ [(k, v)]\<rparr>"

text \<open>\<open>sp_message\<close>, \<open>sp_messagex\<close> and \<open>syslog\<close>: the level and the format string are kept.\<close>

definition sp_message :: "world \<Rightarrow> loglevel \<Rightarrow> string \<Rightarrow> world" where
  "sp_message w lvl txt = w\<lparr>sp_msgs := sp_msgs w @ [(lvl, txt)]\<rparr>"

definition sp_do :: "env \<Rightarrow> world \<Rightarrow> sp_call \<Rightarrow> int \<times> world" where
  "sp_do e w c = (sp_ret e c, w\<lparr>sp_calls := sp_calls w @ [c]\<rparr>)"

text \<open>
  \<open>sp_read_data(sp, &ibuf)\<close>: the return value and the chunk \<open>ibuf\<close> then points to.
\<close>

definition sp_read_data :: "world \<Rightarrow> int \<times> bytes \<times> world" where
  "sp_read_data w =
     (case sp_source w of
        [] \<Rightarrow> (0, [], w)
      | None # rest \<Rightarrow> (-1, [], w\<lparr>sp_source := rest\<rparr>)
      | Some bs # rest \<Rightarrow> (int (length bs), bs, w\<lparr>sp_source := rest\<rparr>))"

definition close_fd :: "world \<Rightarrow> int \<Rightarrow> world" where
  "close_fd w fd = w\<lparr>fd_closed := fd_closed w @ [fd]\<rparr>"

text \<open>\<open>if(fd != -1) close(fd);\<close>\<close>

definition close_if :: "world \<Rightarrow> int \<Rightarrow> world" where
  "close_if w fd = (if fd \<noteq> -1 then close_fd w fd else w)"

text \<open>
  \<open>waitpid\<close> and \<open>kill\<close> take their result from the environment; once nothing more is
  scheduled there the process is gone (\<open>ECHILD\<close>, \<open>ESRCH\<close>).
\<close>

definition waitpid :: "world \<Rightarrow> int \<Rightarrow> wait_res \<times> world" where
  "waitpid w p =
     (case os_wait w of
        [] \<Rightarrow> (W_err ECHILD, w)
      | r # rest \<Rightarrow> (r, w\<lparr>os_wait := rest\<rparr>))"

definition kill :: "world \<Rightarrow> int \<Rightarrow> int \<Rightarrow> kill_res \<times> world" where
  "kill w p sig =
     (case os_kill w of
        [] \<Rightarrow> (K_err ESRCH, w\<lparr>signals := signals w @ [(p, sig)]\<rparr>)
      | r # rest \<Rightarrow> (r, w\<lparr>os_kill := rest, signals := signals w @ [(p, sig)]\<rparr>))"

text \<open>
  The wait status macros of \<open>sys/wait.h\<close>: \<open>WIFEXITED(s)\<close> is \<open>(s & 0x7f) == 0\<close>,
  \<open>WEXITSTATUS(s)\<close> is \<open>(s & 0xff00) >> 8\<close>, and \<open>WIFSIGNALED(s)\<close> holds when the low seven
  bits are a signal number (neither 0 nor \<open>0x7f\<close>).
\<close>

definition WIFEXITED :: "int \<Rightarrow> bool" where
  "WIFEXITED s \<longleftrightarrow> s mod 128 = 0"

definition WEXITSTATUS :: "int \<Rightarrow> int" where
  "WEXITSTATUS s = (s div 256) mod 256"

definition WIFSIGNALED :: "int \<Rightarrow> bool" where
  "WIFSIGNALED s \<longleftrightarrow> 1 \<le> s mod 128 \<and> s mod 128 \<le> 126"

text \<open>
  Modelled from the spec: the \<open>RETURN\<close> macro of \<open>usuals.h\<close>, which is not among the
  files at hand ("Goto-style cleanup"): \<open>RETURN(r)\<close> sets \<open>ret = r\<close> and jumps to the
  \<open>cleanup:\<close> label of the function. \<open>Return r x\<close> is that jump, taken in the state \<open>x\<close>;
  \<open>Cont x\<close> goes on with the next statement. \<open>ASSERT\<close>, of the same header, has no
  effect on a run in which the asserted condition holds and is left out.
\<close>

datatype 'a flow =
    Return int 'a
  | Cont 'a

definition then_do :: "'a flow \<Rightarrow> ('a \<Rightarrow> 'a flow) \<Rightarrow> 'a flow" where
  "then_do m k = (case m of Return r x \<Rightarrow> Return r x | Cont x \<Rightarrow> k x)"

section \<open>The reaper\<close>

text \<open>Conversion of a \<open>long\<close> to \<open>int\<close>: the value modulo \<open>2^32\<close>, read as two's complement.\<close>

definition to_int32 :: "int \<Rightarrow> int" where
  "to_int32 x = (x + 2147483648) mod 4294967296 - 2147483648"

text \<open>\<open>int waits = g_pxstate.timeout.tv_sec * (1000 / POLL_TIME);\<close>\<close>

definition poll_budget :: "pxstate \<Rightarrow> int" where
  "poll_budget g = to_int32 (timeout g * (1000 div POLL_TIME))"

text \<open>
  The loop of \<open>wait_process\<close>, by the number of polls left; \<open>status\<close> is the current value of
  \<open>*status\<close>, which only a \<open>waitpid\<close> that reaps the child overwrites.
\<close>

fun wait_loop :: "nat \<Rightarrow> int \<Rightarrow> int \<Rightarrow> world \<Rightarrow> int \<times> int \<times> world" where
  "wait_loop 0 p status w = (-1, status, w)"
| "wait_loop (Suc waits) p status w =
     (case waitpid w p of
        (W_none, w1) \<Rightarrow>
          (case kill w1 p 0 of
             (K_err en, w2) \<Rightarrow>
               if en = ESRCH then (0, status, w2) else wait_loop waits p status w2
           | (K_ok, w2) \<Rightarrow> wait_loop waits p status w2)
      | (W_err en, w1) \<Rightarrow>
          if en \<noteq> ECHILD \<and> en \<noteq> ESRCH
          then (-1, status, sp_message w1 LOG_CRIT ''error waiting on process'')
          else (0, status, w1)
      | (W_pid st, w1) \<Rightarrow> (0, st, w1))"

text \<open>\<open>wait_process(sp, pid, &status)\<close>: the return value, \<open>*status\<close> and the new world.\<close>

definition wait_process :: "pxstate \<Rightarrow> world \<Rightarrow> int \<Rightarrow> int \<times> int \<times> world" where
  "wait_process g w p = wait_loop (nat (poll_budget g)) p 0 w"

definition kill_process :: "pxstate \<Rightarrow> world \<Rightarrow> int \<Rightarrow> int \<times> world" where
  "kill_process g w p =
     (case kill w p SIGTERM of
        (K_err en, w1) \<Rightarrow>
          if en = ESRCH then (0, w1)
          else (-1, sp_message w1 LOG_ERR ''couldn't send signal to process'')
      | (K_ok, w1) \<Rightarrow>
          (case wait_process g w1 p of (r, status, w2) \<Rightarrow>
             if r = -1 then
               (case kill w2 p SIGKILL of
                  (K_err en, w3) \<Rightarrow>
                    if en = ESRCH then (0, w3)
                    else (-1, sp_message w3 LOG_ERR ''couldn't send signal to process'')
                | (K_ok, w3) \<Rightarrow>
                    (0, sp_message w3 LOG_ERR ''process wouldn't quit. forced termination''))
             else (0, w2)))"

section \<open>Forking the filter and the I/O pumps\<close>

text \<open>
  \<open>fork_filter\<close> as the parent process sees it (the child never returns from it). The
  flags say which of the pointer arguments are not \<open>NULL\<close>; the result is the return
  value, the values stored through \<open>infd\<close>, \<open>outfd\<close> and \<open>errfd\<close> (\<open>None\<close> when nothing
  is stored) and the new world. The \<open>||\<close> chain stops at the first \<open>pipe\<close> that fails, and
  \<open>cleanup:\<close> closes every end still recorded in the three arrays.
\<close>

definition fork_filter ::
  "pxstate \<Rightarrow> env \<Rightarrow> world \<Rightarrow> bool \<Rightarrow> bool \<Rightarrow> bool \<Rightarrow>
     int \<times> int option \<times> int option \<times> int option \<times> world" where
  "fork_filter g e w want_in want_out want_err =
     (let ri = (if want_in then os_pipe_i e else None);
          fail_i = (want_in \<and> ri = None);
          ro = (if \<not> fail_i \<and> want_out then os_pipe_o e else None);
          fail_o = (\<not> fail_i \<and> want_out \<and> ro = None);
          re = (if \<not> fail_i \<and> \<not> fail_o \<and> want_err then os_pipe_e e else None);
          fail_e = (\<not> fail_i \<and> \<not> fail_o \<and> want_err \<and> re = None);
          pipe_i = (case ri of None \<Rightarrow> (-1, -1) | Some x \<Rightarrow> x);
          pipe_o = (case ro of None \<Rightarrow> (-1, -1) | Some x \<Rightarrow> x);
          pipe_e = (case re of None \<Rightarrow> (-1, -1) | Some x \<Rightarrow> x);
          close_all = (\<lambda>w. close_if (close_if (close_if (close_if (close_if (close_if w
                         (fst pipe_i)) (snd pipe_i)) (fst pipe_o)) (snd pipe_o))
                         (fst pipe_e)) (snd pipe_e))
      in if fail_i \<or> fail_o \<or> fail_e then
           (-1, None, None, None,
            close_all (sp_message w LOG_ERR ''couldn't create pipe for filter command''))
         else if os_fork e = -1 then
           (-1, None, None, None,
            close_all (sp_message w LOG_ERR ''couldn't fork for filter command''))
         else
           (let w1 = sp_message w LOG_DEBUG ''executed filter command: %s (pid: %d)'';
                w2 = (if want_in then close_if w1 (fst pipe_i) else w1);
                w3 = (if want_out then close_if w2 (snd pipe_o) else w2);
                w4 = (if want_err then close_if w3 (snd pipe_e) else w3)
            in (os_fork e,
                if want_in then Some (snd pipe_i) else None,
                if want_out then Some (fst pipe_o) else None,
                if want_err then Some (fst pipe_e) else None,
                w4)))"

text \<open>
  The locals of \<open>process_pipe_command\<close> that live across its loop. \<open>ibuf\<close> is the chunk
  the pointer \<open>ibuf\<close> points into, from the pointer on.
\<close>

record pump =
  pid :: int
  infd :: int
  outfd :: int
  errfd :: int
  ibuf :: bytes
  ilen :: int
  icount :: int
  ocount :: int
  ebuf :: string

text \<open>
  What the outside does during one turn of a pump loop: the result of \<open>select\<close> (\<open>-1\<close>,
  \<open>0\<close>, or a positive count with the answers of \<open>FD_ISSET\<close> for \<open>infd\<close>, \<open>outfd\<close> and
  \<open>errfd\<close>), the results of the \<open>write\<close> to \<open>infd\<close> and of the \<open>read\<close>s from \<open>outfd\<close> and
  \<open>errfd\<close> should the turn make them, and the answer of \<open>sp_is_quit\<close>.
\<close>

datatype select_res =
    Sel_err
  | Sel_timeout
  | Sel_ready bool bool bool

datatype write_res =
    Wr_count nat
  | Wr_err errno

datatype read_res =
    Rd_data bytes
  | Rd_err errno

record pump_event =
  ev_select :: select_res
  ev_write :: write_res
  ev_out :: read_res
  ev_err :: read_res
  ev_quit :: bool

text \<open>\<open>while(sp_read_data(sp, &ibuf) > 0) ;\<close> on the chunks still to come.\<close>

fun drain :: "bytes option list \<Rightarrow> bytes option list" where
  "drain [] = []"
| "drain (None # rest) = rest"
| "drain (Some bs # rest) = (if 0 < length bs then drain rest else rest)"

text \<open>
  Handling of the process's stdin, first part: \<open>if(ilen <= 0)\<close>, read some more data
  into the buffer.
\<close>

definition pump_refill :: "pump \<times> world \<Rightarrow> (pump \<times> world) flow" where
  "pump_refill sw =
     (case sw of (s, w) \<Rightarrow>
        if ilen s \<le> 0 then
          (case sp_read_data w of (r, chunk, w1) \<Rightarrow>
             if r = -1 then Return (-1) (s, w1)
             else if r = 0 then Cont (s\<lparr>infd := -1\<rparr>, close_fd w1 (infd s))
             else Cont (s\<lparr>ibuf := chunk, ilen := r\<rparr>, w1))
        else Cont (s, w))"

text \<open>
  Second part: \<open>if(ilen > 0)\<close>, write data from the buffer. A \<open>write\<close> transfers at most
  \<open>ilen\<close> bytes.
\<close>

definition pump_write :: "pump_event \<Rightarrow> pump \<times> world \<Rightarrow> (pump \<times> world) flow" where
  "pump_write ev sw =
     (case sw of (s, w) \<Rightarrow>
        if 0 < ilen s then
          (case ev_write ev of
             Wr_err en \<Rightarrow>
               if en = EPIPE then
                 (let w1 = sp_message w LOG_INFO ''filter command closed input early'';
                      w2 = w1\<lparr>sp_source := drain (sp_source w1)\<rparr>
                  in Cont (s\<lparr>infd := -1\<rparr>, close_fd w2 (infd s)))
               else if en \<noteq> EAGAIN \<and> en \<noteq> EINTR then
                 Return (-1) (s, sp_message w LOG_ERR ''couldn't write to filter command'')
               else Cont (s, w)
           | Wr_count n \<Rightarrow>
               (let r = min (int n) (ilen s)
                in Cont (s\<lparr>icount := icount s + r, ilen := ilen s - r,
                            ibuf := drop (nat r) (ibuf s)\<rparr>, w)))
        else Cont (s, w))"

text \<open>Handling of the process's stdin (\<open>if(infd != -1 && FD_ISSET(infd, &wmask))\<close>).\<close>

definition pump_stdin :: "bool \<Rightarrow> pump_event \<Rightarrow> pump \<times> world \<Rightarrow> (pump \<times> world) flow" where
  "pump_stdin isset ev sw =
     (if infd (fst sw) \<noteq> -1 \<and> isset
      then then_do (pump_refill sw) (pump_write ev)
      else Cont sw)"

text \<open>Handling of stdout, which should be email data.\<close>

definition pump_stdout :: "env \<Rightarrow> bool \<Rightarrow> pump_event \<Rightarrow> pump \<times> world \<Rightarrow> (pump \<times> world) flow" where
  "pump_stdout e isset ev sw =
     (case sw of (s, w) \<Rightarrow>
        if outfd s \<noteq> -1 \<and> isset then
          (case ev_out ev of
             Rd_data bs \<Rightarrow>
               (let obuf = take 1024 bs; r = int (length obuf)
                in if 0 < r then
                     (case sp_do e w (Sp_write_data (Some obuf)) of (x, w1) \<Rightarrow>
                        if x = -1 then Return (-1) (s, w1)
                        else Cont (s\<lparr>ocount := ocount s + r\<rparr>, w1))
                   else Cont (s\<lparr>outfd := -1\<rparr>, close_fd w (outfd s)))
           | Rd_err en \<Rightarrow>
               if en \<noteq> EINTR \<and> en \<noteq> EAGAIN
               then Return (-1) (s, sp_message w LOG_ERR ''couldn't read data from filter command'')
               else Cont (s, w))
        else Cont (s, w))"

text \<open>Handling of stderr, the last line of which is used as an error message.\<close>

definition pump_stderr :: "env \<Rightarrow> bool \<Rightarrow> pump_event \<Rightarrow> pump \<times> world \<Rightarrow> (pump \<times> world) flow" where
  "pump_stderr e isset ev sw =
     (case sw of (s, w) \<Rightarrow>
        if errfd s \<noteq> -1 \<and> isset then
          (case ev_err ev of
             Rd_err en \<Rightarrow>
               if en \<noteq> EINTR \<and> en \<noteq> EAGAIN
               then Return (-1) (s, sp_message w LOG_ERR ''couldn't read data from filter command'')
               else Cont (s, w)
           | Rd_data bs \<Rightarrow>
               (let obuf = take 1023 bs; r = int (length obuf)
                in if r = 0 then Cont (s\<lparr>errfd := -1\<rparr>, close_fd w (errfd s))
                   else Cont (s\<lparr>ebuf := snd (buffer_reject_message (stray_byte e)
                                               (c_str obuf) (ebuf s) 256)\<rparr>, w)))
        else Cont (s, w))"

text \<open>One turn of the main read write loop of \<open>process_pipe_command\<close>.\<close>

definition pump_turn :: "env \<Rightarrow> pump_event \<Rightarrow> pump \<times> world \<Rightarrow> (pump \<times> world) flow" where
  "pump_turn e ev sw =
     (case ev_select ev of
        Sel_err \<Rightarrow>
          Return (-1) (fst sw, sp_message (snd sw) LOG_ERR
                                ''couldn't select while listening to filter command'')
      | Sel_timeout \<Rightarrow>
          Return (-1) (fst sw, sp_message (snd sw) LOG_WARNING
                                ''timeout while listening to filter command'')
      | Sel_ready in_set out_set err_set \<Rightarrow>
          then_do (pump_stdin in_set ev sw) (\<lambda>sw1.
          then_do (pump_stdout e out_set ev sw1) (\<lambda>sw2.
          then_do (pump_stderr e err_set ev sw2) (\<lambda>sw3.
            if ev_quit ev then Return (-1) sw3 else Cont sw3))))"

text \<open>
  The loop \<open>while(infd != -1 || outfd != -1 || errfd != -1)\<close>, one event per turn. When
  the outside has nothing more in store, nothing becomes ready and \<open>select\<close> returns 0
  once the timeout has passed.
\<close>

fun pump_loop :: "env \<Rightarrow> pump_event list \<Rightarrow> pump \<times> world \<Rightarrow> (pump \<times> world) flow" where
  "pump_loop e [] sw =
     (if infd (fst sw) \<noteq> -1 \<or> outfd (fst sw) \<noteq> -1 \<or> errfd (fst sw) \<noteq> -1
      then Return (-1) (fst sw, sp_message (snd sw) LOG_WARNING
                                  ''timeout while listening to filter command'')
      else Cont sw)"
| "pump_loop e (ev # evs) sw =
     (if infd (fst sw) \<noteq> -1 \<or> outfd (fst sw) \<noteq> -1 \<or> errfd (fst sw) \<noteq> -1
      then (case pump_turn e ev sw of
              Return r x \<Rightarrow> Return r x
            | Cont x \<Rightarrow> pump_loop e evs x)
      else Cont sw)"

text \<open>
  The exit-status translation, which \<open>process_pipe_command\<close> and \<open>process_file_command\<close>
  both contain word for word, from \<open>if(!WIFEXITED(status))\<close> to \<open>ret = 0;\<close>. The result
  is the value of \<open>ret\<close> at the \<open>cleanup:\<close> label and the new world.
\<close>

definition exit_translation :: "pxstate \<Rightarrow> env \<Rightarrow> int \<Rightarrow> string \<Rightarrow> world \<Rightarrow> int \<times> world" where
  "exit_translation g e status eb w =
     (if \<not> WIFEXITED status then
        (-1, sp_message w LOG_ERR ''filter command terminated abnormally'')
      else
        (let w1 = sp_message w LOG_DEBUG ''filter exit code: %d''
         in if WEXITSTATUS status = 0 then
              (case sp_do e w1 (Sp_done_data (header g)) of (x, w2) \<Rightarrow>
                 if x = -1 then (-1, w2)
                 else (0, sp_add_log w2 ''status='' ''FILTERED''))
            else
              (let eb1 = final_reject_message eb 256
               in case sp_do e w1 (Sp_fail_data (Some eb1)) of (x, w2) \<Rightarrow>
                    if x = -1 then (-1, w2)
                    else (0, sp_add_log w2 ''status='' eb1))))"

text \<open>
  \<open>process_pipe_command\<close> once \<open>wait_process\<close> has returned 0 with \<open>status\<close>, from
  \<open>pid = 0;\<close> to \<open>ret = 0;\<close>. The result is \<open>ret\<close>, the locals and the world at the
  \<open>cleanup:\<close> label.
\<close>

definition pipe_verdict :: "pxstate \<Rightarrow> env \<Rightarrow> int \<Rightarrow> pump \<times> world \<Rightarrow> int \<times> pump \<times> world" where
  "pipe_verdict g e status sw =
     (case sw of (s, w) \<Rightarrow>
        (case exit_translation g e status (ebuf s) w of (ret, w1) \<Rightarrow>
           (ret, s\<lparr>pid := 0\<rparr>, w1)))"

text \<open>
  \<open>process_pipe_command\<close> from the end of its loop on: the cache is closed and the child
  is reaped.
\<close>

definition pipe_reap :: "pxstate \<Rightarrow> env \<Rightarrow> pump \<times> world \<Rightarrow> int \<times> pump \<times> world" where
  "pipe_reap g e sw =
     (case sw of (s, w) \<Rightarrow>
        (let w1 = sp_message w LOG_DEBUG ''wrote %d bytes to filter, read %d bytes''
         in case sp_do e w1 (Sp_write_data None) of (x, w2) \<Rightarrow>
              if x = -1 then (-1, s, w2)
              else
                (case wait_process g w2 (pid s) of (r, status, w3) \<Rightarrow>
                   if r = -1 then
                     (-1, s, sp_message w3 LOG_ERR ''timeout waiting for filter command to exit'')
                   else pipe_verdict g e status (s, w3))))"

text \<open>The \<open>cleanup:\<close> block of \<open>process_pipe_command\<close>.\<close>

definition pipe_cleanup :: "pxstate \<Rightarrow> int \<times> pump \<times> world \<Rightarrow> int \<times> world" where
  "pipe_cleanup g x =
     (case x of (ret, s, w) \<Rightarrow>
        (let w1 = close_if (close_if (close_if w (infd s)) (outfd s)) (errfd s);
             w2 = (if pid s \<noteq> 0
                   then snd (kill_process g
                               (sp_message w1 LOG_WARNING ''killing filter process (pid %d)'')
                               (pid s))
                   else w1);
             w3 = (if ret < 0 then sp_add_log w2 ''status='' ''FILTER-ERROR'' else w2)
         in (ret, w3)))"

definition process_pipe_command :: "pxstate \<Rightarrow> env \<Rightarrow> pump_event list \<Rightarrow> world \<Rightarrow> int \<times> world" where
  "process_pipe_command g e evs w =
     (case fork_filter g e w True True True of (p, fi, fo, fe, w1) \<Rightarrow>
        (let s0 = \<lparr>pid = p,
                   infd = (case fi of Some fd \<Rightarrow> fd | None \<Rightarrow> uninit_infd e),
                   outfd = (case fo of Some fd \<Rightarrow> fd | None \<Rightarrow> uninit_outfd e),
                   errfd = (case fe of Some fd \<Rightarrow> fd | None \<Rightarrow> uninit_errfd e),
                   ibuf = [], ilen = 0, icount = 0, ocount = 0, ebuf = []\<rparr>
         in pipe_cleanup g
              (if p = -1 then (-1, s0, w1)
               else
                 (case sp_do e w1 (Sp_write_data (Some [])) of (x, w2) \<Rightarrow>
                    if x = -1 then (-1, s0, w2)
                    else
                      (case pump_loop e evs (s0, w2) of
                         Return r (s, w3) \<Rightarrow> (r, s, w3)
                       | Cont sw \<Rightarrow> pipe_reap g e sw)))))"

text \<open>
  The loop \<open>while(errfd != -1)\<close> of \<open>process_file_command\<close> on its locals \<open>errfd\<close> and
  \<open>ebuf\<close>. A failed \<open>read\<close> with \<open>EINTR\<close> or \<open>EAGAIN\<close> takes the \<open>continue\<close>, end of file
  takes the \<open>break\<close>; neither reaches the \<open>sp_is_quit\<close> test.
\<close>

fun file_loop ::
  "env \<Rightarrow> pump_event list \<Rightarrow> int \<times> string \<times> world \<Rightarrow> (int \<times> string \<times> world) flow" where
  "file_loop e [] x =
     (case x of (fd, eb, w) \<Rightarrow>
        if fd \<noteq> -1
        then Return (-1) (fd, eb, sp_message w LOG_ERR ''timeout while listening to filter command'')
        else Cont (fd, eb, w))"
| "file_loop e (ev # evs) x =
     (case x of (fd, eb, w) \<Rightarrow>
        if fd \<noteq> -1 then
          (case ev_select ev of
             Sel_err \<Rightarrow>
               Return (-1) (fd, eb, sp_message w LOG_ERR
                                      ''couldn't select while listening to filter command'')
           | Sel_timeout \<Rightarrow>
               Return (-1) (fd, eb, sp_message w LOG_ERR
                                      ''timeout while listening to filter command'')
           | Sel_ready in_set out_set err_set \<Rightarrow>
               (case ev_err ev of
                  Rd_err en \<Rightarrow>
                    if en \<noteq> EINTR \<and> en \<noteq> EAGAIN
                    then Return (-1) (fd, eb, sp_message w LOG_ERR
                                                ''couldn't read data from filter command'')
                    else file_loop e evs (fd, eb, w)
                | Rd_data bs \<Rightarrow>
                    (let obuf = take 1023 bs; r = int (length obuf)
                     in if r = 0 then Cont (-1, eb, close_fd w fd)
                        else
                          (let eb1 = snd (buffer_reject_message (stray_byte e)
                                            (c_str obuf) eb 256)
                           in if ev_quit ev then Return (-1) (fd, eb1, w)
                              else file_loop e evs (fd, eb1, w)))))
        else Cont (fd, eb, w))"

text \<open>
  \<open>process_file_command\<close> once \<open>wait_process\<close> has returned 0 with \<open>status\<close>, from
  \<open>pid = 0;\<close> to \<open>ret = 0;\<close>. The result is \<open>ret\<close>, \<open>pid\<close>, \<open>errfd\<close> and the world at
  the \<open>cleanup:\<close> label.
\<close>

definition file_verdict ::
  "pxstate \<Rightarrow> env \<Rightarrow> int \<Rightarrow> int \<times> string \<times> world \<Rightarrow> int \<times> int \<times> int \<times> world" where
  "file_verdict g e status x =
     (case x of (fd, eb, w) \<Rightarrow>
        (case exit_translation g e status eb w of (ret, w1) \<Rightarrow> (ret, 0, fd, w1)))"

text \<open>\<open>process_file_command\<close> from the end of its loop on, for the child \<open>p\<close>.\<close>

definition file_reap ::
  "pxstate \<Rightarrow> env \<Rightarrow> int \<Rightarrow> int \<times> string \<times> world \<Rightarrow> int \<times> int \<times> int \<times> world" where
  "file_reap g e p x =
     (case x of (fd, eb, w) \<Rightarrow>
        (case wait_process g w p of (r, status, w1) \<Rightarrow>
           if r = -1 then
             (-1, p, fd, sp_message w1 LOG_ERR ''timeout waiting for filter command to exit'')
           else file_verdict g e status (fd, eb, w1)))"

text \<open>The \<open>cleanup:\<close> block of \<open>process_file_command\<close>.\<close>

definition file_cleanup :: "pxstate \<Rightarrow> int \<times> int \<times> int \<times> world \<Rightarrow> int \<times> world" where
  "file_cleanup g x =
     (case x of (ret, p, fd, w) \<Rightarrow>
        (let w1 = (if p \<noteq> 0
                   then snd (kill_process g
                               (sp_message w LOG_WARNING ''killing filter process (pid %d)'') p)
                   else w);
             w2 = close_if w1 fd;
             w3 = (if ret < 0 then sp_add_log w2 ''status='' ''FILTER-ERROR'' else w2)
         in (ret, w3)))"

definition process_file_command :: "pxstate \<Rightarrow> env \<Rightarrow> pump_event list \<Rightarrow> world \<Rightarrow> int \<times> world" where
  "process_file_command g e evs w =
     file_cleanup g
       (case sp_do e w Sp_cache_data of (x, w1) \<Rightarrow>
          if x = -1 then (-1, 0, -1, w1)
          else
            (case fork_filter g e w1 False False True of (p, fi, fo, fe, w2) \<Rightarrow>
               (let fd = (case fe of Some fd \<Rightarrow> fd | None \<Rightarrow> -1)
                in if p = -1 then (-1, p, fd, w2)
                   else
                     (case file_loop e evs (fd, [], w2) of
                        Return r (fd1, eb, w3) \<Rightarrow> (r, p, fd1, w3)
                      | Cont y \<Rightarrow> file_reap g e p y))))"

section \<open>The SMTP relay filter\<close>

definition CRLF :: string where
  "CRLF = [CHR 0x0D, CHR 0x0A]"

text \<open>A store outside an array: the index written and the size of the array.\<close>

datatype fault = Oob_write int nat

text \<open>
  \<open>send(s, data, len, 0)\<close>: the return value comes from the environment, and the bytes
  that went out are appended to what was sent.
\<close>

definition net_send :: "env \<Rightarrow> world \<Rightarrow> bytes \<Rightarrow> int \<times> world" where
  "net_send e w d =
     (let n = net_send_ret e (net_sent w) d
      in (n, if 0 < n then w\<lparr>net_sent := net_sent w @ [take (nat n) d]\<rparr> else w))"

text \<open>
  \<open>recv(s, buf, sizeof buf, 0)\<close> with \<open>char buf[4096]\<close>: the return value and the bytes
  stored in \<open>buf\<close>. A closed connection gives 0.
\<close>

definition net_recv_buf :: "world \<Rightarrow> int \<times> bytes \<times> world" where
  "net_recv_buf w =
     (case net_recv w of
        [] \<Rightarrow> (0, [], w)
      | None # rest \<Rightarrow> (-1, [], w\<lparr>net_recv := rest\<rparr>)
      | Some bs # rest \<Rightarrow> (int (length (take 4096 bs)), take 4096 bs, w\<lparr>net_recv := rest\<rparr>))"

text \<open>
  \<open>smtp_command(s, data, resp, resp_data)\<close>. \<open>data\<close> and \<open>resp\<close> are \<open>None\<close> for \<open>NULL\<close>,
  \<open>want\<close> says whether \<open>resp_data\<close> is not \<open>NULL\<close>. The result is the return value, the
  string stored through \<open>resp_data\<close> (\<open>None\<close> when nothing is stored) and the new world,
  or the fault of the store \<open>buf[t] = '\0'\<close> when \<open>t\<close> is not an index of \<open>buf\<close>.
\<close>

definition smtp_command ::
  "env \<Rightarrow> world \<Rightarrow> string option \<Rightarrow> string option \<Rightarrow> bool \<Rightarrow>
     fault + (int \<times> string option \<times> world)" where
  "smtp_command e w data resp want =
     (case (case data of
              None \<Rightarrow> (True, w)
            | Some d \<Rightarrow> (case net_send e w d of (n, w1) \<Rightarrow> (n = int (length d), w1)))
      of (sent, w1) \<Rightarrow>
        if \<not> sent then Inr (-1, None, w1)
        else
          (case net_recv_buf w1 of (t, buf, w2) \<Rightarrow>
             if 0 < t then
               if 4096 \<le> t then Inl (Oob_write t 4096)
               else
                 (let line = c_str buf;
                      stored = (if want then Some line else None)
                  in if (case resp of None \<Rightarrow> True | Some r \<Rightarrow> starts_with line r)
                     then Inr (0, stored, w2)
                     else Inr (-1, stored, w2))
             else Inr (-1, None, w2)))"

text \<open>
  Sequencing for the relay dialogue: a fault ends everything, a \<open>RETURN\<close> skips to the
  \<open>cleanup:\<close> label. The state is the socket \<open>s\<close>, the descriptor \<open>fd\<close> and the world.
\<close>

type_synonym smtp_st = "int \<times> int \<times> world"

definition and_then ::
  "fault + smtp_st flow \<Rightarrow> (smtp_st \<Rightarrow> fault + smtp_st flow) \<Rightarrow> fault + smtp_st flow" where
  "and_then m k =
     (case m of
        Inl f \<Rightarrow> Inl f
      | Inr (Return r x) \<Rightarrow> Inr (Return r x)
      | Inr (Cont x) \<Rightarrow> k x)"

text \<open>
  The step that the dialogue repeats:
  \<^verbatim>\<open>if (smtp_command(s, str, resp, NULL) == -1) { syslog(LOG_WARNING, ...); RETURN(-1); }\<close>
\<close>

definition smtp_expect ::
  "env \<Rightarrow> string option \<Rightarrow> string \<Rightarrow> smtp_st \<Rightarrow> fault + smtp_st flow" where
  "smtp_expect e data resp x =
     (case x of (s, fd, w) \<Rightarrow>
        (case smtp_command e w data (Some resp) False of
           Inl f \<Rightarrow> Inl f
         | Inr (r, stored, w1) \<Rightarrow>
             if r = -1
             then Inr (Return (-1) (s, fd, sp_message w1 LOG_WARNING ''smtp_command(%s): %m''))
             else Inr (Cont (s, fd, w1))))"

text \<open>From the start of \<open>process_smtp_command\<close> to the end of \<open>connect\<close>.\<close>

definition smtp_connect :: "env \<Rightarrow> spctx \<Rightarrow> world \<Rightarrow> fault + smtp_st flow" where
  "smtp_connect e sp w =
     (case sp_do e w Sp_cache_data of (x, w1) \<Rightarrow>
        if x = -1 then Inr (Return (-1) (-1, -1, w1))
        else if sender sp = None \<or> recipients sp = None then
          Inr (Return (-1) (-1, -1, sp_message w1 LOG_WARNING ''missing sender or recipient''))
        else if net_socket e = -1 then
          Inr (Return (-1) (-1, -1, sp_message w1 LOG_WARNING ''socket: %m''))
        else if net_connect e = -1 then
          Inr (Return (-1) (net_socket e, -1, sp_message w1 LOG_WARNING ''connect: %m''))
        else Inr (Cont (net_socket e, -1, w1)))"

text \<open>The \<open>XCLIENT\<close> line, where \<open>strchr(sp->client.peername, ':')\<close> selects the prefix.\<close>

definition xclient_line :: "spctx \<Rightarrow> string" where
  "xclient_line sp =
     (let prefix = (if CHR '':'' \<in> set (peername sp) then ''IPv6:'' else [])
      in case helo sp of
           Some h \<Rightarrow> snprintf_str (''XCLIENT ADDR='' @ prefix @ peername sp @ '' HELO='' @ h @ CRLF)
         | None \<Rightarrow> snprintf_str (''XCLIENT ADDR='' @ prefix @ peername sp @ CRLF))"

text \<open>Greeting, \<open>EHLO\<close>, \<open>XCLIENT\<close> and \<open>MAIL FROM\<close>.\<close>

definition smtp_envelope :: "env \<Rightarrow> spctx \<Rightarrow> smtp_st \<Rightarrow> fault + smtp_st flow" where
  "smtp_envelope e sp x =
     and_then (smtp_expect e None ''220'' x) (\<lambda>x1.
     and_then (smtp_expect e (Some (snprintf_str (''EHLO proxsmtp'' @ CRLF))) ''250'' x1) (\<lambda>x2.
     and_then (smtp_expect e (Some (xclient_line sp)) ''220'' x2) (\<lambda>x3.
       smtp_expect e (Some (snprintf_str (''MAIL FROM: '' @ the (sender sp) @ CRLF))) ''250'' x3)))"

text \<open>All the tokens that \<open>strsep(&r, "\n")\<close> returns for a string, in order.\<close>

fun strsep_nl :: "string \<Rightarrow> string list" where
  "strsep_nl [] = [[]]"
| "strsep_nl (c # cs) =
     (if c = NL then [] # strsep_nl cs
      else (case strsep_nl cs of
              [] \<Rightarrow> [[c]]
            | t # ts \<Rightarrow> (c # t) # ts))"

text \<open>\<open>snprintf(str, sizeof str, "RCPT TO: %s\r\n", token)\<close>.\<close>

definition rcpt_line :: "string \<Rightarrow> string" where
  "rcpt_line token = snprintf_str (''RCPT TO: '' @ token @ CRLF)"

text \<open>The recipient loop \<open>while ((token = strsep(&r, "\n")) != NULL)\<close> on the tokens left.\<close>

fun smtp_rcpts :: "env \<Rightarrow> string list \<Rightarrow> smtp_st \<Rightarrow> fault + smtp_st flow" where
  "smtp_rcpts e [] x = Inr (Cont x)"
| "smtp_rcpts e (token # rest) x =
     (case x of (s, fd, w) \<Rightarrow>
        (case smtp_command e w (Some (rcpt_line token)) (Some ''250'') True of
           Inl f \<Rightarrow> Inl f
         | Inr (r, last_line, w1) \<Rightarrow>
             if r = -1 then
               (case last_line of
                  None \<Rightarrow>
                    Inr (Return (-1) (s, fd, sp_message w1 LOG_WARNING ''smtp_command(%s): %m''))
                | Some ll \<Rightarrow>
                    (let ll1 = trim_end ll
                     in case sp_do e w1 (Sp_fail_data (Some ll1)) of (y, w2) \<Rightarrow>
                          if y = -1 then Inr (Return (-1) (s, fd, w2))
                          else Inr (Return 0 (s, fd, sp_add_log w2 ''status='' ll1))))
             else smtp_rcpts e rest (s, fd, w1)))"

text \<open>
  The loop \<open>while ((t=read(fd, buf, sizeof buf)) > 0) if (send(s, buf, t, 0) != t) RETURN(-1);\<close>
  from the file offset \<open>off\<close>: a \<open>read\<close> of the cache file gives the next 4096 bytes or
  what is left of the file, and a \<open>read\<close> that fails ends the loop as the end of the file does.
\<close>

function stream_cache :: "env \<Rightarrow> nat \<Rightarrow> world \<Rightarrow> world flow" where
  "stream_cache e off w =
     (if cache_read_fails e off then Cont w
      else
        (let buf = take 4096 (drop off (cache_file e))
         in if 0 < length buf then
              (case net_send e w buf of (n, w1) \<Rightarrow>
                 if n \<noteq> int (length buf) then Return (-1) w1
                 else stream_cache e (off + length buf) w1)
            else Cont w))"
  by pat_completeness auto
termination
  by (relation "measure (\<lambda>(e, off, w). length (cache_file e) - off)") auto

declare stream_cache.simps [simp del]

text \<open>
  Opening the cache file, streaming it and sending the final line, whose reply is
  captured in \<open>last_line\<close>: the result carries \<open>last_line\<close> with the state.
\<close>

definition smtp_body :: "env \<Rightarrow> smtp_st \<Rightarrow> fault + (string option \<times> smtp_st) flow" where
  "smtp_body e x =
     (case x of (s, fd0, w) \<Rightarrow>
        if cache_open e = -1 then
          Inr (Return (-1) (None, s, cache_open e, sp_message w LOG_WARNING ''open(%s): %m''))
        else
          (case stream_cache e 0 w of
             Return r w1 \<Rightarrow> Inr (Return r (None, s, cache_open e, w1))
           | Cont w1 \<Rightarrow>
               (case smtp_command e w1 (Some (snprintf_str (''.'' @ CRLF))) None True of
                  Inl f \<Rightarrow> Inl f
                | Inr (r, last_line, w2) \<Rightarrow>
                    if r = -1
                    then Inr (Return (-1) (last_line, s, cache_open e,
                                sp_message w2 LOG_WARNING ''smtp_command(%s): %m''))
                    else Inr (Cont (last_line, s, cache_open e, w2)))))"

text \<open>From \<open>trim_end(last_line)\<close> to \<open>ret = 0;\<close>: \<open>QUIT\<close> and the verdict.\<close>

definition smtp_verdict :: "pxstate \<Rightarrow> env \<Rightarrow> string \<Rightarrow> smtp_st \<Rightarrow> fault + smtp_st flow" where
  "smtp_verdict g e last_line x =
     (case x of (s, fd, w) \<Rightarrow>
        (let ll = trim_end last_line
         in case smtp_command e w (Some (snprintf_str (''QUIT'' @ CRLF))) None False of
              Inl f \<Rightarrow> Inl f
            | Inr (r, stored, w1) \<Rightarrow>
                if starts_with ll ''250'' then
                  (case sp_do e w1 (Sp_done_data (header g)) of (y, w2) \<Rightarrow>
                     if y = -1 then Inr (Return (-1) (s, fd, w2))
                     else Inr (Cont (s, fd, sp_add_log w2 ''status='' ''FILTERED'')))
                else
                  (case sp_do e w1 (Sp_fail_data (Some ll)) of (y, w2) \<Rightarrow>
                     if y = -1 then Inr (Return (-1) (s, fd, w2))
                     else Inr (Cont (s, fd, sp_add_log w2 ''status='' ll)))))"

text \<open>The \<open>cleanup:\<close> block of \<open>process_smtp_command\<close>.\<close>

definition smtp_cleanup :: "int \<Rightarrow> smtp_st \<Rightarrow> int \<times> world" where
  "smtp_cleanup ret x =
     (case x of (s, fd, w) \<Rightarrow>
        (let w1 = (if ret < 0 then sp_add_log w ''status='' ''FILTER-ERROR'' else w)
         in (ret, close_if (close_if w1 s) fd)))"

definition process_smtp_command ::
  "pxstate \<Rightarrow> env \<Rightarrow> spctx \<Rightarrow> world \<Rightarrow> fault + (int \<times> world)" where
  "process_smtp_command g e sp w =
     (case
        and_then (smtp_connect e sp w) (\<lambda>x1.
        and_then (smtp_envelope e sp x1) (\<lambda>x2.
        and_then (smtp_rcpts e (strsep_nl (the (recipients sp))) x2) (\<lambda>x3.
        and_then (smtp_expect e (Some (snprintf_str (''DATA'' @ CRLF))) ''354'' x3) (\<lambda>x4.
          case smtp_body e x4 of
            Inl f \<Rightarrow> Inl f
          | Inr (Return r (ll, x5)) \<Rightarrow> Inr (Return r x5)
          | Inr (Cont (ll, x5)) \<Rightarrow> smtp_verdict g e (the ll) x5))))
      of
        Inl f \<Rightarrow> Inl f
      | Inr (Return r x) \<Rightarrow> Inr (smtp_cleanup r x)
      | Inr (Cont x) \<Rightarrow> Inr (smtp_cleanup 0 x))"

section \<open>The framework callbacks\<close>

definition cb_check_pre :: "pxstate \<Rightarrow> env \<Rightarrow> world \<Rightarrow> int \<times> world" where
  "cb_check_pre g e w =
     (if filter_type g = FILTER_REJECT then
        (case sp_do e (sp_add_log w ''status='' ''REJECTED'') (Sp_fail_msg (Some (reject g))) of
           (x, w1) \<Rightarrow> if x < 0 then (-1, w1) else (0, w1))
      else (1, w))"

text \<open>\<open>while(waitpid(-1, &r, WNOHANG) > 0) ;\<close> on the results still to come.\<close>

fun reap_old :: "wait_res list \<Rightarrow> wait_res list" where
  "reap_old [] = []"
| "reap_old (W_pid st # rest) = reap_old rest"
| "reap_old (r # rest) = rest"

definition cb_check_data ::
  "pxstate \<Rightarrow> env \<Rightarrow> spctx \<Rightarrow> pump_event list \<Rightarrow> world \<Rightarrow> fault + (int \<times> world)" where
  "cb_check_data g e sp evs w =
     (if filter_type g = FILTER_REJECT then
        (case sp_do e (sp_add_log w ''status='' ''REJECTED'') (Sp_fail_data (Some (reject g))) of
           (x, w1) \<Rightarrow> if x < 0 then Inr (-1, w1) else Inr (0, w1))
      else
        (case sp_do e w Sp_start_data of (x, w1) \<Rightarrow>
           if x < 0 then Inr (-1, w1)
           else if command g = None then
             (let w2 = sp_message w1 LOG_WARNING
                         ''no filter command specified. passing message through''
              in case sp_do e w2 Sp_cache_data of (y, w3) \<Rightarrow>
                   if y = -1 then Inr (-1, w3)
                   else (case sp_do e w3 (Sp_done_data (header g)) of (z, w4) \<Rightarrow>
                           if z = -1 then Inr (-1, w4) else Inr (0, w4)))
           else
             (let w2 = w1\<lparr>os_wait := reap_old (os_wait w1)\<rparr>
              in case (if filter_type g = FILTER_PIPE then Inr (process_pipe_command g e evs w2)
                       else if filter_type g = FILTER_SMTP then process_smtp_command g e sp w2
                       else Inr (process_file_command g e evs w2)) of
                   Inl f \<Rightarrow> Inl f
                 | Inr (r, w3) \<Rightarrow>
                     if r = -1 then
                       (case sp_do e w3 (Sp_fail_data None) of (y, w4) \<Rightarrow>
                          if y = -1 then Inr (-1, w4) else Inr (0, w4))
                     else Inr (0, w3))))"

section \<open>The framework's side of the instructions\<close>

text \<open>
  Modelled from the spec: what the framework, whose code is not part of the core, does
  with the instructions it is given. \<open>cache_data\<close>: "Spool the incoming body to the temp
  directory"; \<open>write_data\<close>: "Append filtered body bytes to the outgoing cache";
  \<open>done_data\<close>: "Commit delivery to the server, optionally inserting \<open>header\<close>". The state
  is the cache and what was delivered to the server so far; \<open>body\<close> is the body the
  client sends and \<open>ins\<close> the way a header is inserted, which the spec leaves open. An
  instruction that reports failure is taken to have had no effect.
\<close>

fun fw_run ::
  "env \<Rightarrow> (string option \<Rightarrow> bytes \<Rightarrow> bytes) \<Rightarrow> bytes \<Rightarrow> sp_call list \<Rightarrow>
     bytes \<times> bytes option \<Rightarrow> bytes \<times> bytes option" where
  "fw_run e ins body [] st = st"
| "fw_run e ins body (c # cs) st =
     fw_run e ins body cs
       (if sp_ret e c < 0 then st
        else (case c of
                Sp_cache_data \<Rightarrow> (body, snd st)
              | Sp_write_data (Some bs) \<Rightarrow> (fst st @ bs, snd st)
              | Sp_done_data h \<Rightarrow> (fst st, Some (ins h (fst st)))
              | _ \<Rightarrow> st))"

section \<open>Notions used to state the properties\<close>

text \<open>An entry of the body source that is data: \<open>sp_read_data\<close> returns a positive count.\<close>

definition is_chunk :: "bytes option \<Rightarrow> bool" where
  "is_chunk x = (case x of None \<Rightarrow> False | Some bs \<Rightarrow> 0 < length bs)"




text \<open>
  The outcome \<open>res\<close> (return value and world) of a pipe or file dispatch whose child was
  reaped with wait status \<open>st\<close>, when the world was \<open>w\<close> and the accumulator held \<open>eb\<close> at
  that moment. Killed by a signal: the dispatch fails and logs \<open>status=FILTER-ERROR\<close>
  without a framework call. Exit code 0: \<open>done_data\<close> is called with the configured
  header; when that call succeeds the dispatch returns 0 and logs \<open>status=FILTERED\<close>.
  Any other exit code: the accumulator is finalized and \<open>fail_data\<close> is called with it;
  when that call succeeds the dispatch returns 0 and logs the reason as status. A
  framework call that returns \<open>-1\<close> makes the dispatch fail with
  \<open>status=FILTER-ERROR\<close>.
\<close>

definition exit_outcome :: "pxstate \<Rightarrow> env \<Rightarrow> int \<Rightarrow> string \<Rightarrow> world \<Rightarrow> int \<times> world \<Rightarrow> bool" where
  "exit_outcome g e st eb w res \<longleftrightarrow>
     (WIFSIGNALED st \<longrightarrow>
        fst res = -1 \<and> sp_calls (snd res) = sp_calls w \<and>
        sp_log (snd res) = sp_log w @ [(''status='', ''FILTER-ERROR'')]) \<and>
     (WIFEXITED st \<and> WEXITSTATUS st = 0 \<longrightarrow>
        sp_calls (snd res) = sp_calls w @ [Sp_done_data (header g)] \<and>
        (if sp_ret e (Sp_done_data (header g)) = -1
         then fst res = -1 \<and> sp_log (snd res) = sp_log w @ [(''status='', ''FILTER-ERROR'')]
         else fst res = 0 \<and> sp_log (snd res) = sp_log w @ [(''status='', ''FILTERED'')])) \<and>
     (WIFEXITED st \<and> WEXITSTATUS st \<noteq> 0 \<longrightarrow>
        sp_calls (snd res) = sp_calls w @ [Sp_fail_data (Some (final_reject_message eb 256))] \<and>
        (if sp_ret e (Sp_fail_data (Some (final_reject_message eb 256))) = -1
         then fst res = -1 \<and> sp_log (snd res) = sp_log w @ [(''status='', ''FILTER-ERROR'')]
         else fst res = 0 \<and>
              sp_log (snd res) = sp_log w @ [(''status='', final_reject_message eb 256)]))"

text \<open>
  The reason the specification describes: "the last non-empty line of the child's stderr
  as of the most recent newline seen". The lines seen so far are the pieces of the
  stream that a newline has ended; a line counts as empty when it holds nothing but
  whitespace.
\<close>

definition blank :: "string \<Rightarrow> bool" where
  "blank l \<longleftrightarrow> list_all isspace l"

definition text_lines :: "string \<Rightarrow> string list" where
  "text_lines s = filter (\<lambda>l. \<not> blank l) (butlast (strsep_nl s))"

definition last_line_seen :: "string \<Rightarrow> string" where
  "last_line_seen s = (if text_lines s = [] then [] else last (text_lines s))"

text \<open>A line without the whitespace around it.\<close>

definition trim :: "string \<Rightarrow> string" where
  "trim l = trim_end (trim_start l)"

text \<open>
  The line that \<open>buffer_reject_message\<close> takes from a chunk whose trailing whitespace
  holds a newline: the chunk is cut before that whitespace, and what follows the last
  newline left in it is trimmed at the start.
\<close>

definition chunk_line :: "string \<Rightarrow> string" where
  "chunk_line data =
     (case strrchr (trim_end data) NL of
        None \<Rightarrow> trim_start (trim_end data)
      | Some t \<Rightarrow> trim_start t)"

text \<open>
  What holds between the accumulator and the stream folded so far, when every chunk ends
  with a newline: the accumulator is empty or ends with a newline, fits its capacity,
  and is, up to its trailing whitespace, the last line with text seen in the stream.
\<close>

definition tracks :: "string \<Rightarrow> string \<Rightarrow> bool" where
  "tracks acc s \<longleftrightarrow>
     (acc = [] \<or> last acc = NL) \<and> length acc \<le> 255 \<and> (s = [] \<or> last s = NL) \<and>
     trim_end acc = trim (last_line_seen s)"

section \<open>Sample inputs\<close>

text \<open>A world in which nothing has happened yet and nothing is scheduled.\<close>

definition world0 :: world where
  "world0 =
     \<lparr>sp_log = [], sp_msgs = [], sp_calls = [], sp_source = [], fd_closed = [],
      signals = [], os_wait = [], os_kill = [], net_sent = [], net_recv = []\<rparr>"

text \<open>
  An environment in which every call succeeds: the framework returns 0, the pipes get
  the descriptors 3 to 8, the child has pid 1234, the relay socket is descriptor 9,
  every \<open>send\<close> is complete and the cache file is descriptor 10.
\<close>

definition env0 :: env where
  "env0 =
     \<lparr>sp_ret = (\<lambda>c. 0), os_pipe_i = Some (3, 4), os_pipe_o = Some (5, 6),
      os_pipe_e = Some (7, 8), os_fork = 1234, uninit_infd = 0, uninit_outfd = 0,
      uninit_errfd = 0, stray_byte = NUL, net_socket = 9, net_connect = 0,
      net_send_ret = (\<lambda>sent d. int (length d)), cache_open = 10, cache_file = [],
      cache_read_fails = (\<lambda>off. False)\<rparr>"

text \<open>A message with two recipients, relayed for the client at 10.0.0.1.\<close>

definition sp0 :: spctx where
  "sp0 =
     \<lparr>sender = Some ''<a@x>'', recipients = Some (''<a@x>'' @ [NL] @ ''<b@x>''),
      helo = Some ''mx'', peername = ''10.0.0.1'', cachename = ''/tmp/px.cache''\<rparr>"

text \<open>
  An event at which everything is ready, the child has closed both its output streams
  and accepts no byte.
\<close>

definition ev_eof :: pump_event where
  "ev_eof =
     \<lparr>ev_select = Sel_ready True True True, ev_write = Wr_count 0,
      ev_out = Rd_data [], ev_err = Rd_data [], ev_quit = False\<rparr>"


text \<open>Locals of the pipe pump in mid-transfer: five bytes are waiting to be written.\<close>

definition pump5 :: pump where
  "pump5 =
     \<lparr>pid = 1234, infd = 4, outfd = 5, errfd = 7, ibuf = ''hello'', ilen = 5,
      icount = 0, ocount = 0, ebuf = []\<rparr>"

section \<open>What the primitive operations leave alone\<close>

lemma close_if_fields [simp]:
  "sp_log (close_if w fd) = sp_log w"
  "sp_calls (close_if w fd) = sp_calls w"
  "sp_msgs (close_if w fd) = sp_msgs w"
  "net_sent (close_if w fd) = net_sent w"
  by (simp_all add: close_if_def close_fd_def)

lemma close_fd_fields [simp]:
  "sp_log (close_fd w fd) = sp_log w"
  "sp_calls (close_fd w fd) = sp_calls w"
  "sp_source (close_fd w fd) = sp_source w"
  "fd_closed (close_fd w fd) = fd_closed w @ [fd]"
  by (simp_all add: close_fd_def)

lemma sp_message_fields [simp]:
  "sp_log (sp_message w l t) = sp_log w"
  "sp_calls (sp_message w l t) = sp_calls w"
  "net_sent (sp_message w l t) = net_sent w"
  "net_recv (sp_message w l t) = net_recv w"
  "sp_source (sp_message w l t) = sp_source w"
  "fd_closed (sp_message w l t) = fd_closed w"
  "sp_msgs (sp_message w l t) = sp_msgs w @ [(l, t)]"
  by (simp_all add: sp_message_def)

lemma sp_add_log_fields [simp]:
  "sp_log (sp_add_log w k v) = sp_log w @ [(k, v)]"
  "sp_calls (sp_add_log w k v) = sp_calls w"
  "net_sent (sp_add_log w k v) = net_sent w"
  "net_recv (sp_add_log w k v) = net_recv w"
  by (simp_all add: sp_add_log_def)

lemma sp_do_fields [simp]:
  "fst (sp_do e w c) = sp_ret e c"
  "sp_log (snd (sp_do e w c)) = sp_log w"
  "sp_calls (snd (sp_do e w c)) = sp_calls w @ [c]"
  "net_sent (snd (sp_do e w c)) = net_sent w"
  "net_recv (snd (sp_do e w c)) = net_recv w"
  by (simp_all add: sp_do_def)

section \<open>The dispatcher's reject mode\<close>

text \<open>
  Claim C6. When \<open>filter_type\<close> is reject, \<open>check_pre\<close> and \<open>check_data\<close> each log
  \<open>status=REJECTED\<close> and fail the pending command (with \<open>sp_fail_msg\<close> before DATA, with
  \<open>sp_fail_data\<close> at DATA) with the configured \<open>reject\<close> response; they return 0 when
  the failure reply is delivered and \<open>-1\<close> when delivering it fails (the framework call
  returns a negative value). When \<open>filter_type\<close> is not reject, \<open>check_pre\<close> returns 1 and
  does nothing else.
\<close>

theorem check_reject:
  "(filter_type g = FILTER_REJECT \<longrightarrow>
      cb_check_pre g e w =
        (if sp_ret e (Sp_fail_msg (Some (reject g))) < 0 then -1 else 0,
         w\<lparr>sp_log := sp_log w @ [(''status='', ''REJECTED'')],
           sp_calls := sp_calls w @ [Sp_fail_msg (Some (reject g))]\<rparr>) \<and>
      cb_check_data g e sp evs w =
        Inr (if sp_ret e (Sp_fail_data (Some (reject g))) < 0 then -1 else 0,
             w\<lparr>sp_log := sp_log w @ [(''status='', ''REJECTED'')],
               sp_calls := sp_calls w @ [Sp_fail_data (Some (reject g))]\<rparr>)) \<and>
   (filter_type g \<noteq> FILTER_REJECT \<longrightarrow> cb_check_pre g e w = (1, w))"
  by (simp add: cb_check_pre_def cb_check_data_def sp_do_def sp_add_log_def)

theorem check_reject_witness:
  "cb_check_pre (default_pxstate\<lparr>filter_type := FILTER_REJECT, reject := ''550 Not Today''\<rparr>)
       env0 world0 =
     (0, world0\<lparr>sp_log := [(''status='', ''REJECTED'')],
                sp_calls := [Sp_fail_msg (Some ''550 Not Today'')]\<rparr>) \<and>
   cb_check_data (default_pxstate\<lparr>filter_type := FILTER_REJECT, reject := ''550 Not Today''\<rparr>)
       (env0\<lparr>sp_ret := (\<lambda>c. -1)\<rparr>) sp0 [] world0 =
     Inr (-1, world0\<lparr>sp_log := [(''status='', ''REJECTED'')],
                     sp_calls := [Sp_fail_data (Some ''550 Not Today'')]\<rparr>) \<and>
   cb_check_pre default_pxstate env0 world0 = (1, world0)"
  using
    check_reject [of "default_pxstate\<lparr>filter_type := FILTER_REJECT, reject := ''550 Not Today''\<rparr>"
                     env0 world0 sp0 "[]"]
    check_reject [of "default_pxstate\<lparr>filter_type := FILTER_REJECT, reject := ''550 Not Today''\<rparr>"
                     "env0\<lparr>sp_ret := (\<lambda>c. -1)\<rparr>" world0 sp0 "[]"]
    check_reject [of default_pxstate env0 world0]
  by (simp add: default_pxstate_def env0_def world0_def FILTER_REJECT_def FILTER_PIPE_def)

section \<open>Memory safety of the reply buffer and of the accumulator\<close>

text \<open>
  Claim C10 says that the terminator \<open>smtp_command\<close> stores after \<open>recv\<close>, at the index
  equal to the number of bytes received, always lies inside the 4096-byte reply buffer.
  It does not: a reply that fills the buffer makes \<open>recv\<close> return 4096, and the store
  goes to index 4096 of an array whose last index is 4095.
\<close>

theorem smtp_command_reply_4096:
  "smtp_command env0 (world0\<lparr>net_recv := [Some (replicate 4096 (CHR ''2''))]\<rparr>)
      None (Some ''220'') False = Inl (Oob_write 4096 4096)"
  by (simp add: smtp_command_def net_recv_buf_def world0_def)

text \<open>
  Claim C9 says that the test whether the accumulator already ends in a newline, which
  reads index \<open>strlen(buf) - 1\<close>, only runs on a non-empty accumulator. It does not: on
  the zeroed accumulator of a fresh dispatch, a first chunk that holds text and no
  newline makes the function read index \<open>-1\<close>.
\<close>

theorem reject_reads_before_buffer:
  "fst (buffer_reject_message (stray_byte env0) ''error'' [] 256) = [-1]"
  by (simp add: buffer_reject_message_def isspace_def NL_def trim_start_def strlcat_def)


section \<open>The reaper on a child that is already gone\<close>

text \<open>
  The number of polls is computed in \<open>long\<close> (64 bits) and stored in an \<open>int\<close> (32 bits):
  for a timeout from 1 to 42949672 seconds the \<open>int\<close> holds \<open>tv_sec * 50\<close>.
\<close>

lemma poll_budget_in_range:
  "0 < timeout g \<Longrightarrow> timeout g * 50 < 2147483648 \<Longrightarrow> poll_budget g = timeout g * 50"
  by (simp add: poll_budget_def to_int32_def POLL_TIME_def)

lemma wait_process_first_poll:
  "0 < poll_budget g \<Longrightarrow>
     wait_process g w p = wait_loop (Suc (nat (poll_budget g) - 1)) p 0 w"
  by (simp add: wait_process_def)

text \<open>
  With such a timeout the loop polls at least once, and the reaper is idempotent: when
  the non-blocking wait reports \<open>ECHILD\<close> or \<open>ESRCH\<close>, and when it reports no change and
  the zero-signal \<open>kill\<close> probe reports \<open>ESRCH\<close>, \<open>wait_process\<close> returns 0 and \<open>*status\<close>
  is still 0.
\<close>

lemma wait_process_reaped_in_range:
  assumes "0 < timeout g" and "timeout g * 50 < 2147483648"
  shows "(waitpid w p = (W_err en, w1) \<and> (en = ECHILD \<or> en = ESRCH) \<longrightarrow>
            wait_process g w p = (0, 0, w1)) \<and>
         (waitpid w p = (W_none, w1) \<and> kill w1 p 0 = (K_err ESRCH, w2) \<longrightarrow>
            wait_process g w p = (0, 0, w2))"
proof -
  from assms have "0 < poll_budget g"
    by (simp add: poll_budget_in_range)
  then have "wait_process g w p = wait_loop (Suc (nat (poll_budget g) - 1)) p 0 w"
    by (rule wait_process_first_poll)
  then show ?thesis
    by auto
qed

lemma wait_process_reaped_default:
  "wait_process default_pxstate world0 1234 = (0, 0, world0) \<and>
   wait_process default_pxstate (world0\<lparr>os_wait := [W_err ESRCH]\<rparr>) 1234 = (0, 0, world0) \<and>
   wait_process default_pxstate (world0\<lparr>os_wait := [W_none, W_pid 256]\<rparr>) 1234 =
     (0, 0, world0\<lparr>os_wait := [W_pid 256], signals := [(1234, 0)]\<rparr>)"
  using
    wait_process_reaped_in_range [of default_pxstate world0 1234 ECHILD world0]
    wait_process_reaped_in_range [of default_pxstate "world0\<lparr>os_wait := [W_err ESRCH]\<rparr>" 1234
       ESRCH world0]
    wait_process_reaped_in_range [of default_pxstate "world0\<lparr>os_wait := [W_none, W_pid 256]\<rparr>"
       1234 _ "world0\<lparr>os_wait := [W_pid 256]\<rparr>"
       "world0\<lparr>os_wait := [W_pid 256], signals := [(1234, 0)]\<rparr>"]
  by (simp add: default_pxstate_def DEFAULT_TIMEOUT_def world0_def waitpid_def kill_def)

text \<open>
  Claim C8 says that calling \<open>wait_process\<close> on a pid that is already reaped returns
  success with a zero exit status. It does not for every timeout the configuration
  accepts: with \<open>FilterTimeout\<close> 42949673 the product \<open>tv_sec * 50\<close> is 2147483650, the
  \<open>int\<close> that holds it is negative, the loop is never entered and \<open>wait_process\<close> returns
  \<open>-1\<close> without a single \<open>waitpid\<close>, also for a child that is gone (here nothing is
  scheduled in the world, so that a \<open>waitpid\<close> would have reported \<open>ECHILD\<close>).
\<close>

theorem wait_process_budget_wraps:
  "poll_budget (default_pxstate\<lparr>timeout := 42949673\<rparr>) = -2147483646 \<and>
   waitpid world0 1234 = (W_err ECHILD, world0) \<and>
   wait_process (default_pxstate\<lparr>timeout := 42949673\<rparr>) world0 1234 = (-1, 0, world0)"
  by (simp add: wait_process_def poll_budget_def to_int32_def POLL_TIME_def default_pxstate_def
        waitpid_def world0_def)

section \<open>Exit-status translation\<close>

lemma signaled_not_exited: "WIFSIGNALED st \<Longrightarrow> \<not> WIFEXITED st"
  by (simp add: WIFSIGNALED_def WIFEXITED_def)

lemma exit_translation_outcome:
  "exit_outcome g e st eb w
     (case exit_translation g e st eb w of (ret, w1) \<Rightarrow>
        (ret, if ret < 0 then sp_add_log w1 ''status='' ''FILTER-ERROR'' else w1))"
  by (auto simp: exit_outcome_def exit_translation_def Let_def split_beta
        dest: signaled_not_exited)

lemma pipe_cleanup_reaped:
  "pid s = 0 \<Longrightarrow>
     fst (pipe_cleanup g (ret, s, w)) = ret \<and>
     sp_calls (snd (pipe_cleanup g (ret, s, w))) = sp_calls w \<and>
     sp_log (snd (pipe_cleanup g (ret, s, w))) =
       sp_log (if ret < 0 then sp_add_log w ''status='' ''FILTER-ERROR'' else w)"
  by (simp add: pipe_cleanup_def Let_def)

lemma file_cleanup_reaped:
  "fst (file_cleanup g (ret, 0, fd, w)) = ret \<and>
   sp_calls (snd (file_cleanup g (ret, 0, fd, w))) = sp_calls w \<and>
   sp_log (snd (file_cleanup g (ret, 0, fd, w))) =
     sp_log (if ret < 0 then sp_add_log w ''status='' ''FILTER-ERROR'' else w)"
  by (simp add: file_cleanup_def Let_def)

lemma exit_outcome_same:
  "fst r = fst r' \<Longrightarrow> sp_calls (snd r) = sp_calls (snd r') \<Longrightarrow>
     sp_log (snd r) = sp_log (snd r') \<Longrightarrow>
     exit_outcome g e st eb w r' \<Longrightarrow> exit_outcome g e st eb w r"
  by (simp add: exit_outcome_def)

text \<open>
  Both dispatches go from their loop to the reaper and from there, once the child has
  been reaped, to the translation.
\<close>

lemma process_pipe_command_pump_done:
  assumes "fork_filter g e w True True True = (p, fi, fo, fe, w1)" and "p \<noteq> -1"
    and "sp_ret e (Sp_write_data (Some [])) \<noteq> -1"
    and "pump_loop e evs
           (\<lparr>pid = p,
             infd = (case fi of Some fd \<Rightarrow> fd | None \<Rightarrow> uninit_infd e),
             outfd = (case fo of Some fd \<Rightarrow> fd | None \<Rightarrow> uninit_outfd e),
             errfd = (case fe of Some fd \<Rightarrow> fd | None \<Rightarrow> uninit_errfd e),
             ibuf = [], ilen = 0, icount = 0, ocount = 0, ebuf = []\<rparr>,
            snd (sp_do e w1 (Sp_write_data (Some [])))) = Cont sw"
  shows "process_pipe_command g e evs w = pipe_cleanup g (pipe_reap g e sw)"
  using assms by (simp add: process_pipe_command_def Let_def split_beta)

lemma process_file_command_loop_done:
  assumes "sp_ret e Sp_cache_data \<noteq> -1"
    and "fork_filter g e (snd (sp_do e w Sp_cache_data)) False False True = (p, fi, fo, fe, w1)"
    and "p \<noteq> -1"
    and "file_loop e evs ((case fe of Some fd \<Rightarrow> fd | None \<Rightarrow> -1), [], w1) = Cont y"
  shows "process_file_command g e evs w = file_cleanup g (file_reap g e p y)"
  using assms by (simp add: process_file_command_def Let_def split_beta)


lemma pipe_reap_reaped:
  assumes "sp_ret e (Sp_write_data None) \<noteq> -1"
    and "wait_process g
           (snd (sp_do e (sp_message w LOG_DEBUG ''wrote %d bytes to filter, read %d bytes'')
                   (Sp_write_data None))) (pid s) = (r, st, w1)"
    and "r \<noteq> -1"
  shows "pipe_reap g e (s, w) = pipe_verdict g e st (s, w1)"
  using assms by (simp add: pipe_reap_def Let_def split_beta)

lemma file_reap_reaped:
  assumes "wait_process g w p = (r, st, w1)" and "r \<noteq> -1"
  shows "file_reap g e p (fd, eb, w) = file_verdict g e st (fd, eb, w1)"
  using assms by (simp add: file_reap_def)

text \<open>
  Claim C2 says that a pipe or file dispatch whose child was reaped fails with
  \<open>status=FILTER-ERROR\<close> when the child was killed by a signal, commits the body with
  \<open>done_data\<close> and the configured header and logs \<open>status=FILTERED\<close> when the child
  exited with code 0, and otherwise finalizes the rejection reason, fails the DATA
  command with it and logs it as status. As stated this does not hold: when the
  framework call itself fails, the dispatch logs \<open>status=FILTER-ERROR\<close> and returns
  \<open>-1\<close>. Here the child of a pipe dispatch exits with code 0 and \<open>done_data\<close> fails.
\<close>

theorem exit_zero_done_data_fails:
  "fst (process_pipe_command (default_pxstate\<lparr>command := Some ''/bin/cat''\<rparr>)
          (env0\<lparr>sp_ret := (\<lambda>c. if c = Sp_done_data None then -1 else 0)\<rparr>)
          [ev_eof] (world0\<lparr>os_wait := [W_pid 0]\<rparr>)) = -1 \<and>
   sp_log (snd (process_pipe_command (default_pxstate\<lparr>command := Some ''/bin/cat''\<rparr>)
          (env0\<lparr>sp_ret := (\<lambda>c. if c = Sp_done_data None then -1 else 0)\<rparr>)
          [ev_eof] (world0\<lparr>os_wait := [W_pid 0]\<rparr>))) = [(''status='', ''FILTER-ERROR'')]"
  by code_simp

text \<open>
  Claim C2 as amended. For every pipe or file dispatch whose child was reaped with
  status \<open>st\<close>: if the child was killed by a signal the dispatch fails with
  \<open>status=FILTER-ERROR\<close>; if it exited with code 0 the dispatch calls \<open>done_data\<close> with the
  configured header and, when that call succeeds, returns 0 and logs \<open>status=FILTERED\<close>;
  if it exited with another code the dispatch finalizes the rejection-reason buffer,
  calls \<open>fail_data\<close> with that reason and, when that call succeeds, returns 0 and logs
  the reason as status; when the framework call returns \<open>-1\<close> the dispatch fails with
  \<open>status=FILTER-ERROR\<close>.
\<close>

theorem exit_status_translation:
  "exit_outcome g e st (ebuf s) w (pipe_cleanup g (pipe_verdict g e st (s, w))) \<and>
   exit_outcome g e st eb w (file_cleanup g (file_verdict g e st (fd, eb, w)))"
proof
  obtain ret w1 where et: "exit_translation g e st (ebuf s) w = (ret, w1)"
    by (cases "exit_translation g e st (ebuf s) w")
  have "exit_outcome g e st (ebuf s) w
          (ret, if ret < 0 then sp_add_log w1 ''status='' ''FILTER-ERROR'' else w1)"
    using exit_translation_outcome [of g e st "ebuf s" w] et by simp
  moreover have "pipe_verdict g e st (s, w) = (ret, s\<lparr>pid := 0\<rparr>, w1)"
    by (simp add: pipe_verdict_def et)
  ultimately show "exit_outcome g e st (ebuf s) w (pipe_cleanup g (pipe_verdict g e st (s, w)))"
    using pipe_cleanup_reaped [of "s\<lparr>pid := 0\<rparr>" g ret w1]
    by (auto elim!: exit_outcome_same [rotated 3])
next
  obtain ret w1 where et: "exit_translation g e st eb w = (ret, w1)"
    by (cases "exit_translation g e st eb w")
  have "exit_outcome g e st eb w
          (ret, if ret < 0 then sp_add_log w1 ''status='' ''FILTER-ERROR'' else w1)"
    using exit_translation_outcome [of g e st eb w] et by simp
  moreover have "file_verdict g e st (fd, eb, w) = (ret, 0, fd, w1)"
    by (simp add: file_verdict_def et)
  ultimately show "exit_outcome g e st eb w (file_cleanup g (file_verdict g e st (fd, eb, w)))"
    using file_cleanup_reaped [of g ret fd w1]
    by (auto elim!: exit_outcome_same [rotated 3])
qed

theorem exit_status_translation_witness:
  "fst (pipe_cleanup default_pxstate (pipe_verdict default_pxstate env0 9
          (\<lparr>pid = 1234, infd = -1, outfd = -1, errfd = -1, ibuf = [], ilen = 0,
            icount = 0, ocount = 0, ebuf = []\<rparr>, world0))) = -1 \<and>
   sp_log (snd (file_cleanup default_pxstate (file_verdict default_pxstate env0 0
          (-1, [], world0)))) = [(''status='', ''FILTERED'')] \<and>
   sp_log (snd (file_cleanup default_pxstate (file_verdict default_pxstate env0 256
          (-1, ''virus found'' @ [NL], world0)))) = [(''status='', ''virus found'')] \<and>
   sp_calls (snd (file_cleanup default_pxstate (file_verdict default_pxstate env0 256
          (-1, [], world0)))) = [Sp_fail_data (Some ''Content Rejected'')]"
  using
    exit_status_translation [of default_pxstate env0 9
       "\<lparr>pid = 1234, infd = -1, outfd = -1, errfd = -1, ibuf = [], ilen = 0,
         icount = 0, ocount = 0, ebuf = []\<rparr>" world0]
    exit_status_translation [of default_pxstate env0 0 _ world0 "[]" "-1"]
    exit_status_translation [of default_pxstate env0 256 _ world0 "''virus found'' @ [NL]" "-1"]
    exit_status_translation [of default_pxstate env0 256 _ world0 "[]" "-1"]
  by (simp add: exit_outcome_def WIFSIGNALED_def WIFEXITED_def WEXITSTATUS_def env0_def
        world0_def final_reject_message_def strlcpy_def REJECTED_def trim_end_def isspace_def
        NL_def default_pxstate_def)

section \<open>Write errors in the pipe pump\<close>

lemma is_chunk_simps [simp]:
  "is_chunk None = False"
  "is_chunk (Some bs) = (bs \<noteq> [])"
  by (simp_all add: is_chunk_def)





lemma process_pipe_command_pump_returns:
  assumes "fork_filter g e w True True True = (p, fi, fo, fe, w1)" and "p \<noteq> -1"
    and "sp_ret e (Sp_write_data (Some [])) \<noteq> -1"
    and "pump_loop e evs
           (\<lparr>pid = p,
             infd = (case fi of Some fd \<Rightarrow> fd | None \<Rightarrow> uninit_infd e),
             outfd = (case fo of Some fd \<Rightarrow> fd | None \<Rightarrow> uninit_outfd e),
             errfd = (case fe of Some fd \<Rightarrow> fd | None \<Rightarrow> uninit_errfd e),
             ibuf = [], ilen = 0, icount = 0, ocount = 0, ebuf = []\<rparr>,
            snd (sp_do e w1 (Sp_write_data (Some [])))) = Return r (s, w2)"
  shows "process_pipe_command g e evs w = pipe_cleanup g (r, s, w2)"
  using assms by (simp add: process_pipe_command_def Let_def split_beta)



lemma pump_select_irrelevant [simp]:
  "pump_stdout e b (ev\<lparr>ev_select := x\<rparr>) = pump_stdout e b ev"
  "pump_stderr e b (ev\<lparr>ev_select := x\<rparr>) = pump_stderr e b ev"
  by (simp_all add: pump_stdout_def pump_stderr_def fun_eq_iff)
















section \<open>The recipient loop of the relay filter\<close>

lemma rcpt_line_nonempty: "rcpt_line t \<noteq> []"
  by (simp add: rcpt_line_def snprintf_str_def)

lemma net_send_complete:
  assumes "\<forall>sent d. net_send_ret e sent d = int (length d)" and "d \<noteq> []"
  shows "net_send e w d = (int (length d), w\<lparr>net_sent := net_sent w @ [d]\<rparr>)"
  using assms by (simp add: net_send_def Let_def)

lemma smtp_command_reply:
  assumes "\<forall>sent d. net_send_ret e sent d = int (length d)" and "d \<noteq> []"
    and "net_recv w = Some r # rest" and "r \<noteq> []" and "length r < 4096"
  shows "smtp_command e w (Some d) resp want =
           Inr (if (case resp of None \<Rightarrow> True | Some x \<Rightarrow> starts_with (c_str r) x) then 0 else -1,
                if want then Some (c_str r) else None,
                w\<lparr>net_sent := net_sent w @ [d], net_recv := rest\<rparr>)"
  using assms
  by (simp add: smtp_command_def net_send_complete net_recv_buf_def Let_def)

lemma smtp_rcpts_accepted:
  assumes sends: "\<forall>sent d. net_send_ret e sent d = int (length d)"
  shows "length oks = length tokens \<Longrightarrow>
         (\<forall>r\<in>set oks. r \<noteq> [] \<and> length r < 4096 \<and> starts_with (c_str r) ''250'') \<Longrightarrow>
         net_recv w = map Some oks @ rest \<Longrightarrow>
         smtp_rcpts e tokens (s, fd, w) =
           Inr (Cont (s, fd, w\<lparr>net_sent := net_sent w @ map rcpt_line tokens, net_recv := rest\<rparr>))"
proof (induction tokens arbitrary: oks w)
  case Nil
  then show ?case by simp
next
  case (Cons t ts)
  then obtain r rs where oks: "oks = r # rs"
    by (cases oks) auto
  with Cons.prems have r: "r \<noteq> []" "length r < 4096" "starts_with (c_str r) ''250''"
    and rs: "length rs = length ts"
      "\<forall>r\<in>set rs. r \<noteq> [] \<and> length r < 4096 \<and> starts_with (c_str r) ''250''"
    and recv: "net_recv w = Some r # (map Some rs @ rest)"
    by auto
  have step: "smtp_command e w (Some (rcpt_line t)) (Some ''250'') True =
                Inr (0, Some (c_str r), w\<lparr>net_sent := net_sent w @ [rcpt_line t],
                                            net_recv := map Some rs @ rest\<rparr>)"
    using smtp_command_reply [OF sends rcpt_line_nonempty recv r(1) r(2),
        where resp = "Some ''250''" and want = True] r(3)
    by simp
  show ?case
    using Cons.IH [OF rs, of "w\<lparr>net_sent := net_sent w @ [rcpt_line t],
                                net_recv := map Some rs @ rest\<rparr>"]
    by (simp add: step)
qed

lemma smtp_cleanup_ok:
  "fst (smtp_cleanup 0 (s, fd, w)) = 0 \<and> sp_log (snd (smtp_cleanup 0 (s, fd, w))) = sp_log w \<and>
   sp_calls (snd (smtp_cleanup 0 (s, fd, w))) = sp_calls w"
  by (simp add: smtp_cleanup_def)

lemma smtp_cleanup_failed:
  "fst (smtp_cleanup (-1) (s, fd, w)) = -1 \<and>
   sp_log (snd (smtp_cleanup (-1) (s, fd, w))) = sp_log w @ [(''status='', ''FILTER-ERROR'')]"
  by (simp add: smtp_cleanup_def)

lemma smtp_cleanup_frame:
  "sp_calls (snd (smtp_cleanup r (s, fd, w))) = sp_calls w \<and>
   net_sent (snd (smtp_cleanup r (s, fd, w))) = net_sent w"
  by (simp add: smtp_cleanup_def Let_def)

lemma process_smtp_command_rcpt_return:
  assumes "smtp_connect e sp w = Inr (Cont x1)"
    and "smtp_envelope e sp x1 = Inr (Cont x2)"
    and "smtp_rcpts e (strsep_nl (the (recipients sp))) x2 = Inr (Return r x3)"
  shows "process_smtp_command g e sp w = Inr (smtp_cleanup r x3)"
  using assms by (simp add: process_smtp_command_def and_then_def)

lemma smtp_rcpts_append:
  "smtp_rcpts e pre x = Inr (Cont y) \<Longrightarrow> smtp_rcpts e (pre @ post) x = smtp_rcpts e post y"
proof (induction pre arbitrary: x)
  case Nil
  then show ?case by simp
next
  case (Cons t ts)
  obtain s fd w where x: "x = (s, fd, w)"
    by (cases x)
  from Cons.prems show ?case
    by (auto simp: x Let_def Cons.IH
          split: sum.splits prod.splits if_splits option.splits)
qed

text \<open>
  Claim C4 says that when the reply to an \<open>RCPT TO\<close> line is captured and does not start
  with 250, the DATA command is failed with the trimmed reply, the reply is logged as
  status and the dispatch returns 0, not an error. As stated this does not hold: when
  the framework's \<open>fail_data\<close> itself fails, the dispatch returns \<open>-1\<close> and logs
  \<open>status=FILTER-ERROR\<close>. Here the relay answers \<open>550 User unknown\<close> to the second
  recipient.
\<close>

theorem rcpt_550_fail_data_fails:
  "process_smtp_command (default_pxstate\<lparr>filter_type := FILTER_SMTP, command := Some ''127.0.0.1''\<rparr>)
      (env0\<lparr>sp_ret := (\<lambda>c. if c = Sp_fail_data (Some ''550 User unknown'') then -1 else 0)\<rparr>)
      sp0
      (world0\<lparr>net_recv := map Some [''220 relay'', ''250 hello'', ''220 ok'', ''250 sender ok'',
                                        ''250 rcpt ok'', ''550 User unknown'' @ CRLF]\<rparr>) =
   Inr (-1, world0\<lparr>sp_log := [(''status='', ''FILTER-ERROR'')],
                   sp_calls := [Sp_cache_data, Sp_fail_data (Some ''550 User unknown'')],
                   fd_closed := [9],
                   net_sent := [''EHLO proxsmtp'' @ CRLF, ''XCLIENT ADDR=10.0.0.1 HELO=mx'' @ CRLF,
                                ''MAIL FROM: <a@x>'' @ CRLF, ''RCPT TO: <a@x>'' @ CRLF,
                                ''RCPT TO: <b@x>'' @ CRLF]\<rparr>)"
  by (simp add: process_smtp_command_def and_then_def smtp_connect_def smtp_envelope_def
        smtp_expect_def smtp_command_def net_send_def net_recv_buf_def sp_do_def sp_message_def
        sp_add_log_def smtp_cleanup_def close_if_def close_fd_def xclient_line_def rcpt_line_def
        snprintf_str_def c_str_def starts_with_def trim_end_def isspace_def CRLF_def NL_def NUL_def
        env0_def world0_def sp0_def default_pxstate_def Let_def)

text \<open>
  Claim C4 as amended. In smtp filter mode, when every \<open>send\<close> is complete and the
  replies are shorter than the reply buffer:
  \<^item> as long as the replies start with 250, an \<open>RCPT TO\<close> line is sent for every
    recipient obtained by splitting the recipients string on newline, in order;
  \<^item> at the first reply that is captured and does not start with 250, no further line
    is sent, the reply is trimmed of trailing whitespace and \<open>fail_data\<close> is called with
    it; when that call succeeds the reply is logged as status and the dispatch goes to
    its cleanup with \<open>ret = 0\<close>, which returns 0 and logs nothing more; when it returns
    \<open>-1\<close> the dispatch goes to its cleanup with \<open>ret = -1\<close>, which returns \<open>-1\<close> and logs
    \<open>status=FILTER-ERROR\<close>;
  \<^item> so it is for \<open>process_smtp_command\<close> as a whole, once the connection and the
    envelope have succeeded and the tokens are those of \<open>sp->recipients\<close>: it calls
    \<open>fail_data\<close> with the trimmed reply, sends nothing after the rejected line, and
    returns 0 with the reply logged as status, or \<open>-1\<close> with \<open>status=FILTER-ERROR\<close> when
    \<open>fail_data\<close> returned \<open>-1\<close>.
\<close>

theorem rcpt_rejection:
  assumes "\<forall>sent d. net_send_ret e sent d = int (length d)"
    and "\<forall>r\<in>set oks. r \<noteq> [] \<and> length r < 4096 \<and> starts_with (c_str r) ''250''"
  shows
    "(length oks = length tokens \<and> net_recv w = map Some oks @ rest \<longrightarrow>
        smtp_rcpts e tokens (s, fd, w) =
          Inr (Cont (s, fd, w\<lparr>net_sent := net_sent w @ map rcpt_line tokens,
                               net_recv := rest\<rparr>))) \<and>
     (length oks = length pre \<and> net_recv w = map Some oks @ Some bad # rest \<and>
      bad \<noteq> [] \<and> length bad < 4096 \<and> \<not> starts_with (c_str bad) ''250'' \<longrightarrow>
        (\<exists>w1. sp_calls w1 = sp_calls w @ [Sp_fail_data (Some (trim_end (c_str bad)))] \<and>
              net_sent w1 = net_sent w @ map rcpt_line (pre @ [tok]) \<and>
              smtp_rcpts e (pre @ tok # post) (s, fd, w) =
                Inr (if sp_ret e (Sp_fail_data (Some (trim_end (c_str bad)))) = -1
                     then Return (-1) (s, fd, w1)
                     else Return 0 (s, fd, sp_add_log w1 ''status='' (trim_end (c_str bad)))) \<and>
              sp_log w1 = sp_log w \<and>
              fst (smtp_cleanup 0 (s, fd, sp_add_log w1 ''status='' (trim_end (c_str bad)))) = 0 \<and>
              sp_log (snd (smtp_cleanup 0
                        (s, fd, sp_add_log w1 ''status='' (trim_end (c_str bad))))) =
                sp_log w @ [(''status='', trim_end (c_str bad))] \<and>
              fst (smtp_cleanup (-1) (s, fd, w1)) = -1 \<and>
              sp_log (snd (smtp_cleanup (-1) (s, fd, w1))) =
                sp_log w @ [(''status='', ''FILTER-ERROR'')] \<and>
              (smtp_connect e sp w0 = Inr (Cont x1) \<and>
               smtp_envelope e sp x1 = Inr (Cont (s, fd, w)) \<and>
               strsep_nl (the (recipients sp)) = pre @ tok # post \<longrightarrow>
                 (\<exists>res. process_smtp_command g e sp w0 = Inr res \<and>
                        sp_calls (snd res) =
                          sp_calls w @ [Sp_fail_data (Some (trim_end (c_str bad)))] \<and>
                        net_sent (snd res) = net_sent w @ map rcpt_line (pre @ [tok]) \<and>
                        (if sp_ret e (Sp_fail_data (Some (trim_end (c_str bad)))) = -1
                         then fst res = -1 \<and>
                              sp_log (snd res) = sp_log w @ [(''status='', ''FILTER-ERROR'')]
                         else fst res = 0 \<and>
                              sp_log (snd res) =
                                sp_log w @ [(''status='', trim_end (c_str bad))])))))"
proof (intro conjI impI)
  assume "length oks = length tokens \<and> net_recv w = map Some oks @ rest"
  then show "smtp_rcpts e tokens (s, fd, w) =
      Inr (Cont (s, fd, w\<lparr>net_sent := net_sent w @ map rcpt_line tokens, net_recv := rest\<rparr>))"
    using smtp_rcpts_accepted [OF assms(1) _ assms(2)] by blast
next
  assume h: "length oks = length pre \<and> net_recv w = map Some oks @ Some bad # rest \<and>
      bad \<noteq> [] \<and> length bad < 4096 \<and> \<not> starts_with (c_str bad) ''250''"
  let ?ll = "trim_end (c_str bad)"
  define wa where "wa = w\<lparr>net_sent := net_sent w @ map rcpt_line pre,
                          net_recv := Some bad # rest\<rparr>"
  define wb where "wb = wa\<lparr>net_sent := net_sent wa @ [rcpt_line tok], net_recv := rest\<rparr>"
  define w1 where "w1 = snd (sp_do e wb (Sp_fail_data (Some ?ll)))"
  have pre: "smtp_rcpts e pre (s, fd, w) = Inr (Cont (s, fd, wa))"
    using smtp_rcpts_accepted [OF assms(1) _ assms(2), of pre w "Some bad # rest"] h
    by (simp add: wa_def)
  have one: "smtp_command e wa (Some (rcpt_line tok)) (Some ''250'') True =
               Inr (-1, Some (c_str bad), wb)"
    using smtp_command_reply [OF assms(1) rcpt_line_nonempty, of wa bad rest tok "Some ''250''" True] h
    by (simp add: wa_def wb_def)
  have "smtp_rcpts e (pre @ tok # post) (s, fd, w) = smtp_rcpts e (tok # post) (s, fd, wa)"
    using pre by (rule smtp_rcpts_append)
  also have "\<dots> =
      Inr (if sp_ret e (Sp_fail_data (Some ?ll)) = -1
           then Return (-1) (s, fd, w1)
           else Return 0 (s, fd, sp_add_log w1 ''status='' ?ll))"
    by (simp add: one w1_def Let_def split_beta)
  finally have run: "smtp_rcpts e (pre @ tok # post) (s, fd, w) =
      Inr (if sp_ret e (Sp_fail_data (Some ?ll)) = -1
           then Return (-1) (s, fd, w1)
           else Return 0 (s, fd, sp_add_log w1 ''status='' ?ll))" .
  have calls: "sp_calls w1 = sp_calls w @ [Sp_fail_data (Some ?ll)]"
    by (simp add: w1_def wb_def wa_def)
  have sent: "net_sent w1 = net_sent w @ map rcpt_line (pre @ [tok])"
    by (simp add: w1_def wb_def wa_def)
  have log: "sp_log w1 = sp_log w"
    by (simp add: w1_def wb_def wa_def)
  have ok0: "fst (smtp_cleanup 0 (s, fd, sp_add_log w1 ''status='' ?ll)) = 0"
    "sp_log (snd (smtp_cleanup 0 (s, fd, sp_add_log w1 ''status='' ?ll))) =
       sp_log w @ [(''status='', ?ll)]"
    using smtp_cleanup_ok [of s fd "sp_add_log w1 ''status='' ?ll"] log
    by (simp_all add: sp_add_log_def)
  have ko: "fst (smtp_cleanup (-1) (s, fd, w1)) = -1"
    "sp_log (snd (smtp_cleanup (-1) (s, fd, w1))) = sp_log w @ [(''status='', ''FILTER-ERROR'')]"
    using smtp_cleanup_failed [of s fd w1] log by simp_all
  have disp: "\<exists>res. process_smtp_command g e sp w0 = Inr res \<and>
                sp_calls (snd res) = sp_calls w @ [Sp_fail_data (Some ?ll)] \<and>
                net_sent (snd res) = net_sent w @ map rcpt_line (pre @ [tok]) \<and>
                (if sp_ret e (Sp_fail_data (Some ?ll)) = -1
                 then fst res = -1 \<and>
                      sp_log (snd res) = sp_log w @ [(''status='', ''FILTER-ERROR'')]
                 else fst res = 0 \<and> sp_log (snd res) = sp_log w @ [(''status='', ?ll)])"
    if d: "smtp_connect e sp w0 = Inr (Cont x1) \<and>
           smtp_envelope e sp x1 = Inr (Cont (s, fd, w)) \<and>
           strsep_nl (the (recipients sp)) = pre @ tok # post"
  proof (cases "sp_ret e (Sp_fail_data (Some ?ll)) = -1")
    case True
    have "process_smtp_command g e sp w0 = Inr (smtp_cleanup (-1) (s, fd, w1))"
      using d run True
      by (intro process_smtp_command_rcpt_return [where ?x1.0 = x1 and ?x2.0 = "(s, fd, w)"])
        simp_all
    with True ko calls sent smtp_cleanup_frame [of "-1" s fd w1] show ?thesis
      by simp
  next
    case False
    have "process_smtp_command g e sp w0 =
            Inr (smtp_cleanup 0 (s, fd, sp_add_log w1 ''status='' ?ll))"
      using d run False
      by (intro process_smtp_command_rcpt_return [where ?x1.0 = x1 and ?x2.0 = "(s, fd, w)"])
        simp_all
    with False ok0 calls sent smtp_cleanup_frame [of 0 s fd "sp_add_log w1 ''status='' ?ll"]
    show ?thesis
      by simp
  qed
  from run calls sent log ok0 ko disp
  show "\<exists>w1. sp_calls w1 = sp_calls w @ [Sp_fail_data (Some (trim_end (c_str bad)))] \<and>
              net_sent w1 = net_sent w @ map rcpt_line (pre @ [tok]) \<and>
              smtp_rcpts e (pre @ tok # post) (s, fd, w) =
                Inr (if sp_ret e (Sp_fail_data (Some (trim_end (c_str bad)))) = -1
                     then Return (-1) (s, fd, w1)
                     else Return 0 (s, fd, sp_add_log w1 ''status='' (trim_end (c_str bad)))) \<and>
              sp_log w1 = sp_log w \<and>
              fst (smtp_cleanup 0 (s, fd, sp_add_log w1 ''status='' (trim_end (c_str bad)))) = 0 \<and>
              sp_log (snd (smtp_cleanup 0
                        (s, fd, sp_add_log w1 ''status='' (trim_end (c_str bad))))) =
                sp_log w @ [(''status='', trim_end (c_str bad))] \<and>
              fst (smtp_cleanup (-1) (s, fd, w1)) = -1 \<and>
              sp_log (snd (smtp_cleanup (-1) (s, fd, w1))) =
                sp_log w @ [(''status='', ''FILTER-ERROR'')] \<and>
              (smtp_connect e sp w0 = Inr (Cont x1) \<and>
               smtp_envelope e sp x1 = Inr (Cont (s, fd, w)) \<and>
               strsep_nl (the (recipients sp)) = pre @ tok # post \<longrightarrow>
                 (\<exists>res. process_smtp_command g e sp w0 = Inr res \<and>
                        sp_calls (snd res) =
                          sp_calls w @ [Sp_fail_data (Some (trim_end (c_str bad)))] \<and>
                        net_sent (snd res) = net_sent w @ map rcpt_line (pre @ [tok]) \<and>
                        (if sp_ret e (Sp_fail_data (Some (trim_end (c_str bad)))) = -1
                         then fst res = -1 \<and>
                              sp_log (snd res) = sp_log w @ [(''status='', ''FILTER-ERROR'')]
                         else fst res = 0 \<and>
                              sp_log (snd res) =
                                sp_log w @ [(''status='', trim_end (c_str bad))])))"
    by (intro exI [of _ w1]) blast
qed

theorem rcpt_rejection_witness:
  "smtp_rcpts env0 [''<a@x>'', ''<b@x>'']
      (9, -1, world0\<lparr>net_recv := [Some ''250 ok'', Some ''250 ok'', Some ''354 go'']\<rparr>) =
     Inr (Cont (9, -1, world0\<lparr>net_sent := [''RCPT TO: <a@x>'' @ CRLF, ''RCPT TO: <b@x>'' @ CRLF],
                              net_recv := [Some ''354 go'']\<rparr>)) \<and>
   (\<exists>w1. sp_calls w1 = [Sp_fail_data (Some ''550 User unknown'')] \<and>
         net_sent w1 = [''RCPT TO: <a@x>'' @ CRLF, ''RCPT TO: <b@x>'' @ CRLF] \<and>
         smtp_rcpts env0 [''<a@x>'', ''<b@x>'', ''<c@x>'']
            (9, -1, world0\<lparr>net_recv := [Some ''250 ok'', Some (''550 User unknown'' @ CRLF),
                                          Some ''250 ok'']\<rparr>) =
           Inr (Return 0 (9, -1, sp_add_log w1 ''status='' ''550 User unknown''))) \<and>
   (\<exists>res. process_smtp_command default_pxstate env0 sp0
             (world0\<lparr>net_recv := map Some [''220 relay'', ''250 hello'', ''220 ok'',
                ''250 sender ok'', ''250 rcpt ok'', ''550 User unknown'' @ CRLF]\<rparr>) = Inr res \<and>
          fst res = 0 \<and>
          sp_log (snd res) = [(''status='', ''550 User unknown'')] \<and>
          sp_calls (snd res) = [Sp_cache_data, Sp_fail_data (Some ''550 User unknown'')] \<and>
          net_sent (snd res) =
            [''EHLO proxsmtp'' @ CRLF, ''XCLIENT ADDR=10.0.0.1 HELO=mx'' @ CRLF,
             ''MAIL FROM: <a@x>'' @ CRLF, ''RCPT TO: <a@x>'' @ CRLF, ''RCPT TO: <b@x>'' @ CRLF]) \<and>
   (\<exists>res. process_smtp_command default_pxstate
             (env0\<lparr>sp_ret := (\<lambda>c. if c = Sp_fail_data (Some ''550 User unknown'') then -1 else 0)\<rparr>)
             sp0
             (world0\<lparr>net_recv := map Some [''220 relay'', ''250 hello'', ''220 ok'',
                ''250 sender ok'', ''250 rcpt ok'', ''550 User unknown'' @ CRLF]\<rparr>) = Inr res \<and>
          fst res = -1 \<and>
          sp_log (snd res) = [(''status='', ''FILTER-ERROR'')] \<and>
          sp_calls (snd res) = [Sp_cache_data, Sp_fail_data (Some ''550 User unknown'')])"
proof -
  have sends: "\<forall>sent d. net_send_ret env0 sent d = int (length d)"
    by (simp add: env0_def)
  have oks2: "\<forall>r\<in>set [''250 ok'', ''250 ok'']. r \<noteq> [] \<and> length r < 4096 \<and> starts_with (c_str r) ''250''"
    by (simp add: starts_with_def c_str_def NUL_def)
  have oks1: "\<forall>r\<in>set [''250 ok'']. r \<noteq> [] \<and> length r < 4096 \<and> starts_with (c_str r) ''250''"
    by (simp add: starts_with_def c_str_def NUL_def)
  have a: "smtp_rcpts env0 [''<a@x>'', ''<b@x>'']
      (9, -1, world0\<lparr>net_recv := [Some ''250 ok'', Some ''250 ok'', Some ''354 go'']\<rparr>) =
     Inr (Cont (9, -1, world0\<lparr>net_sent := [''RCPT TO: <a@x>'' @ CRLF, ''RCPT TO: <b@x>'' @ CRLF],
                              net_recv := [Some ''354 go'']\<rparr>))"
    using rcpt_rejection [OF sends oks2, where tokens = "[''<a@x>'', ''<b@x>'']"
        and w = "world0\<lparr>net_recv := [Some ''250 ok'', Some ''250 ok'', Some ''354 go'']\<rparr>"
        and rest = "[Some ''354 go'']" and s = 9 and fd = "-1" and pre = "[]" and bad = "[]"
        and tok = "[]" and post = "[]"]
    by (simp add: world0_def rcpt_line_def snprintf_str_def CRLF_def del: smtp_rcpts.simps)
  have b: "\<exists>w1. sp_calls w1 = [Sp_fail_data (Some ''550 User unknown'')] \<and>
         net_sent w1 = [''RCPT TO: <a@x>'' @ CRLF, ''RCPT TO: <b@x>'' @ CRLF] \<and>
         smtp_rcpts env0 [''<a@x>'', ''<b@x>'', ''<c@x>'']
            (9, -1, world0\<lparr>net_recv := [Some ''250 ok'', Some (''550 User unknown'' @ CRLF),
                                          Some ''250 ok'']\<rparr>) =
           Inr (Return 0 (9, -1, sp_add_log w1 ''status='' ''550 User unknown''))"
  proof -
    have bad: "''550 User unknown'' @ CRLF \<noteq> [] \<and> length (''550 User unknown'' @ CRLF) < 4096 \<and>
               \<not> starts_with (c_str (''550 User unknown'' @ CRLF)) ''250''"
      by (simp add: starts_with_def c_str_def NUL_def CRLF_def)
    have rt: "sp_ret env0 (Sp_fail_data (Some ''550 User unknown'')) \<noteq> -1"
      by (simp add: env0_def)
    have recv: "length [''250 ok''] = length [''<a@x>''] \<and>
                net_recv (world0\<lparr>net_recv := [Some ''250 ok'', Some (''550 User unknown'' @ CRLF),
                                          Some ''250 ok'']\<rparr>) =
                  map Some [''250 ok''] @ Some (''550 User unknown'' @ CRLF) # [Some ''250 ok'']"
      by simp
    from rcpt_rejection [OF sends oks1, where tokens = "[]"
        and w = "world0\<lparr>net_recv := [Some ''250 ok'', Some (''550 User unknown'' @ CRLF),
                                          Some ''250 ok'']\<rparr>"
        and rest = "[Some ''250 ok'']" and s = 9 and fd = "-1" and pre = "[''<a@x>'']"
        and bad = "''550 User unknown'' @ CRLF"
        and tok = "''<b@x>''" and post = "[''<c@x>'']"] bad recv
    obtain w1 where
      "sp_calls w1 = sp_calls (world0\<lparr>net_recv := [Some ''250 ok'',
                        Some (''550 User unknown'' @ CRLF), Some ''250 ok'']\<rparr>) @
                     [Sp_fail_data (Some (trim_end (c_str (''550 User unknown'' @ CRLF))))]"
      "net_sent w1 = net_sent (world0\<lparr>net_recv := [Some ''250 ok'',
                        Some (''550 User unknown'' @ CRLF), Some ''250 ok'']\<rparr>) @
                     map rcpt_line ([''<a@x>''] @ [''<b@x>''])"
      "smtp_rcpts env0 ([''<a@x>''] @ ''<b@x>'' # [''<c@x>''])
         (9, -1, world0\<lparr>net_recv := [Some ''250 ok'', Some (''550 User unknown'' @ CRLF),
                                          Some ''250 ok'']\<rparr>) =
         Inr (if sp_ret env0 (Sp_fail_data
                     (Some (trim_end (c_str (''550 User unknown'' @ CRLF))))) = -1
              then Return (-1) (9, -1, w1)
              else Return 0 (9, -1, sp_add_log w1 ''status=''
                      (trim_end (c_str (''550 User unknown'' @ CRLF)))))"
      by blast
    then show ?thesis
      using rt
      by (intro exI [of _ w1])
        (simp add: c_str_def NUL_def CRLF_def trim_end_def isspace_def world0_def rcpt_line_def snprintf_str_def
           del: smtp_rcpts.simps)
  qed
  let ?W0 = "world0\<lparr>net_recv := map Some [''220 relay'', ''250 hello'', ''220 ok'',
                ''250 sender ok'', ''250 rcpt ok'', ''550 User unknown'' @ CRLF]\<rparr>"
  let ?X1 = "(9::int, -1::int, ?W0\<lparr>sp_calls := [Sp_cache_data]\<rparr>)"
  let ?WE = "?W0\<lparr>sp_calls := [Sp_cache_data],
                  net_sent := [''EHLO proxsmtp'' @ CRLF, ''XCLIENT ADDR=10.0.0.1 HELO=mx'' @ CRLF,
                               ''MAIL FROM: <a@x>'' @ CRLF],
                  net_recv := [Some ''250 rcpt ok'', Some (''550 User unknown'' @ CRLF)]\<rparr>"
  let ?ko = "env0\<lparr>sp_ret := (\<lambda>c. if c = Sp_fail_data (Some ''550 User unknown'') then -1 else 0)\<rparr>"
  have oksr: "\<forall>r\<in>set [''250 rcpt ok'']. r \<noteq> [] \<and> length r < 4096 \<and> starts_with (c_str r) ''250''"
    by (simp add: starts_with_def c_str_def NUL_def)
  have bad: "''550 User unknown'' @ CRLF \<noteq> [] \<and> length (''550 User unknown'' @ CRLF) < 4096 \<and>
             \<not> starts_with (c_str (''550 User unknown'' @ CRLF)) ''250''"
    by (simp add: starts_with_def c_str_def NUL_def CRLF_def)
  have recv: "length [''250 rcpt ok''] = length [''<a@x>''] \<and>
              net_recv ?WE = map Some [''250 rcpt ok''] @ Some (''550 User unknown'' @ CRLF) # []"
    by simp
  have toks: "strsep_nl (the (recipients sp0)) = [''<a@x>''] @ ''<b@x>'' # []"
    by (simp add: sp0_def NL_def)
  have dial: "smtp_connect e sp0 ?W0 = Inr (Cont ?X1) \<and>
              smtp_envelope e sp0 ?X1 = Inr (Cont (9, -1, ?WE))"
    if "e = env0 \<or> e = ?ko" for e
    using that
    by (auto simp: smtp_connect_def smtp_envelope_def and_then_def smtp_expect_def smtp_command_def
          net_send_def net_recv_buf_def sp_do_def xclient_line_def snprintf_str_def c_str_def
          starts_with_def CRLF_def NUL_def env0_def world0_def sp0_def Let_def)
  have c: "\<exists>res. process_smtp_command default_pxstate env0 sp0 ?W0 = Inr res \<and>
          fst res = 0 \<and>
          sp_log (snd res) = [(''status='', ''550 User unknown'')] \<and>
          sp_calls (snd res) = [Sp_cache_data, Sp_fail_data (Some ''550 User unknown'')] \<and>
          net_sent (snd res) =
            [''EHLO proxsmtp'' @ CRLF, ''XCLIENT ADDR=10.0.0.1 HELO=mx'' @ CRLF,
             ''MAIL FROM: <a@x>'' @ CRLF, ''RCPT TO: <a@x>'' @ CRLF, ''RCPT TO: <b@x>'' @ CRLF]"
  proof -
    have rt: "sp_ret env0 (Sp_fail_data (Some (trim_end (c_str (''550 User unknown'' @ CRLF))))) \<noteq> -1"
      by (simp add: env0_def)
    from rcpt_rejection [OF sends oksr, where tokens = "[]" and w = ?WE and rest = "[]" and s = 9
        and fd = "-1" and pre = "[''<a@x>'']" and bad = "''550 User unknown'' @ CRLF"
        and tok = "''<b@x>''" and post = "[]" and sp = sp0 and ?w0.0 = ?W0 and ?x1.0 = ?X1
        and g = default_pxstate] bad recv toks dial [of env0] rt
    obtain res where "process_smtp_command default_pxstate env0 sp0 ?W0 = Inr res"
      "sp_calls (snd res) =
         sp_calls ?WE @ [Sp_fail_data (Some (trim_end (c_str (''550 User unknown'' @ CRLF))))]"
      "net_sent (snd res) = net_sent ?WE @ map rcpt_line ([''<a@x>''] @ [''<b@x>''])"
      "fst res = 0"
      "sp_log (snd res) =
         sp_log ?WE @ [(''status='', trim_end (c_str (''550 User unknown'' @ CRLF)))]"
      by (auto split: if_splits)
    then show ?thesis
      by (intro exI [of _ res])
        (simp add: c_str_def NUL_def CRLF_def trim_end_def isspace_def world0_def rcpt_line_def snprintf_str_def)
  qed
  have d: "\<exists>res. process_smtp_command default_pxstate ?ko sp0 ?W0 = Inr res \<and>
          fst res = -1 \<and>
          sp_log (snd res) = [(''status='', ''FILTER-ERROR'')] \<and>
          sp_calls (snd res) = [Sp_cache_data, Sp_fail_data (Some ''550 User unknown'')]"
  proof -
    have sends': "\<forall>sent d. net_send_ret ?ko sent d = int (length d)"
      by (simp add: env0_def)
    have rt: "sp_ret ?ko (Sp_fail_data (Some (trim_end (c_str (''550 User unknown'' @ CRLF))))) = -1"
      by (simp add: c_str_def NUL_def CRLF_def trim_end_def isspace_def)
    from rcpt_rejection [OF sends' oksr, where tokens = "[]" and w = ?WE and rest = "[]" and s = 9
        and fd = "-1" and pre = "[''<a@x>'']" and bad = "''550 User unknown'' @ CRLF"
        and tok = "''<b@x>''" and post = "[]" and sp = sp0 and ?w0.0 = ?W0 and ?x1.0 = ?X1
        and g = default_pxstate] bad recv toks dial [of ?ko] rt
    obtain res where "process_smtp_command default_pxstate ?ko sp0 ?W0 = Inr res"
      "sp_calls (snd res) =
         sp_calls ?WE @ [Sp_fail_data (Some (trim_end (c_str (''550 User unknown'' @ CRLF))))]"
      "fst res = -1"
      "sp_log (snd res) = sp_log ?WE @ [(''status='', ''FILTER-ERROR'')]"
      by (auto split: if_splits)
    then show ?thesis
      by (intro exI [of _ res]) (simp add: c_str_def NUL_def CRLF_def trim_end_def isspace_def world0_def)
  qed
  from a b c d show ?thesis by blast
qed

section \<open>Streaming the cache file to the relay\<close>

lemma take_drop_chunk:
  "take n xs @ drop (length (take n xs)) xs = xs"
  by (metis append_take_drop_id length_take min.commute take_all_iff linorder_le_cases min_def)

lemma stream_cache_complete:
  assumes "\<forall>sent d. net_send_ret e sent d = int (length d)"
    and "\<forall>off. \<not> cache_read_fails e off"
  shows "\<exists>chunks. stream_cache e off w = Cont (w\<lparr>net_sent := net_sent w @ chunks\<rparr>) \<and>
                  concat chunks = drop off (cache_file e) \<and>
                  (\<forall>c\<in>set chunks. c \<noteq> [] \<and> length c \<le> 4096)"
  using assms
proof (induction e off w rule: stream_cache.induct)
  case (1 e off w)
  define buf where "buf = take 4096 (drop off (cache_file e))"
  show ?case
  proof (cases "buf = []")
    case True
    then have "drop off (cache_file e) = []"
      by (simp add: buf_def)
    moreover have "stream_cache e off w = Cont w"
      using True "1.prems" by (simp add: stream_cache.simps [of e off w] buf_def [symmetric])
    ultimately show ?thesis
      by (intro exI [of _ "[]"]) simp
  next
    case False
    define w1 where "w1 = w\<lparr>net_sent := net_sent w @ [buf]\<rparr>"
    have send: "net_send e w buf = (int (length buf), w1)"
      using "1.prems"(1) False by (simp add: net_send_complete w1_def)
    have "\<exists>chunks. stream_cache e (off + length buf) w1 =
                      Cont (w1\<lparr>net_sent := net_sent w1 @ chunks\<rparr>) \<and>
                    concat chunks = drop (off + length buf) (cache_file e) \<and>
                    (\<forall>c\<in>set chunks. c \<noteq> [] \<and> length c \<le> 4096)"
      using "1.IH" [of buf "int (length buf)" w1] "1.prems" False send
      by (simp add: buf_def)
    then obtain chunks where
      run: "stream_cache e (off + length buf) w1 = Cont (w1\<lparr>net_sent := net_sent w1 @ chunks\<rparr>)"
      and cat: "concat chunks = drop (off + length buf) (cache_file e)"
      and sz: "\<forall>c\<in>set chunks. c \<noteq> [] \<and> length c \<le> 4096"
      by blast
    have "stream_cache e off w = stream_cache e (off + length buf) w1"
      using False "1.prems" send
      by (simp add: stream_cache.simps [of e off w] buf_def [symmetric])
    then have "stream_cache e off w = Cont (w1\<lparr>net_sent := net_sent w1 @ chunks\<rparr>)"
      by (simp add: run)
    then have "stream_cache e off w = Cont (w\<lparr>net_sent := net_sent w @ (buf # chunks)\<rparr>)"
      by (simp add: w1_def)
    moreover have "concat (buf # chunks) = drop off (cache_file e)"
      using take_drop_chunk [of 4096 "drop off (cache_file e)"]
      by (simp add: cat buf_def add.commute)
    moreover have "\<forall>c\<in>set (buf # chunks). c \<noteq> [] \<and> length c \<le> 4096"
      using sz False by (simp add: buf_def)
    ultimately show ?thesis
      by blast
  qed
qed

text \<open>
  Claim C1 says that after the \<open>354\<close> reply to \<open>DATA\<close> the core streams the cache file
  verbatim and then sends the terminator \<open>\r\n.\r\n\<close>, so that the bytes sent between the
  acknowledgement and the terminator are exactly the bytes of the cache file. As stated
  this does not hold: what the core sends after the file is the line \<open>.\r\n\<close>. For the
  cache file below, the bytes that follow \<open>DATA\<close> are the file and \<open>.\r\n\<close>, which is not the
  file followed by \<open>\r\n.\r\n\<close>.
\<close>

theorem smtp_final_line:
  "process_smtp_command
      (default_pxstate\<lparr>filter_type := FILTER_SMTP, command := Some ''127.0.0.1''\<rparr>)
      (env0\<lparr>cache_file := ''Subject: hi'' @ CRLF @ CRLF @ ''body'' @ CRLF\<rparr>)
      sp0
      (world0\<lparr>net_recv := map Some [''220 relay'', ''250 hello'', ''220 ok'', ''250 sender ok'',
                                        ''250 rcpt ok'', ''250 rcpt ok'', ''354 go ahead'',
                                        ''250 queued'', ''221 bye'']\<rparr>) =
   Inr (0, world0\<lparr>sp_log := [(''status='', ''FILTERED'')],
                  sp_calls := [Sp_cache_data, Sp_done_data None],
                  fd_closed := [9, 10],
                  net_sent := [''EHLO proxsmtp'' @ CRLF, ''XCLIENT ADDR=10.0.0.1 HELO=mx'' @ CRLF,
                               ''MAIL FROM: <a@x>'' @ CRLF, ''RCPT TO: <a@x>'' @ CRLF,
                               ''RCPT TO: <b@x>'' @ CRLF, ''DATA'' @ CRLF,
                               ''Subject: hi'' @ CRLF @ CRLF @ ''body'' @ CRLF,
                               ''.'' @ CRLF, ''QUIT'' @ CRLF]\<rparr>) \<and>
   ''Subject: hi'' @ CRLF @ CRLF @ ''body'' @ CRLF @ ''.'' @ CRLF \<noteq>
   ''Subject: hi'' @ CRLF @ CRLF @ ''body'' @ CRLF @ CRLF @ ''.'' @ CRLF"
  by (simp add: process_smtp_command_def and_then_def smtp_connect_def smtp_envelope_def
        smtp_expect_def smtp_command_def net_send_def net_recv_buf_def sp_do_def sp_message_def
        sp_add_log_def smtp_cleanup_def close_if_def close_fd_def xclient_line_def rcpt_line_def
        snprintf_str_def c_str_def starts_with_def trim_end_def isspace_def CRLF_def NL_def NUL_def
        env0_def world0_def sp0_def default_pxstate_def Let_def smtp_body_def smtp_verdict_def
        stream_cache.simps)

text \<open>
  Claim C1 as amended. In smtp filter mode, when every \<open>send\<close> is complete, no \<open>read\<close>
  of the cache file fails, the file can be opened, and the relay acknowledges \<open>DATA\<close>
  with \<open>354\<close> and answers the final line: after \<open>DATA\<close> the core sends the cache file's
  contents verbatim, in chunks of at most 4096 bytes, and then the line \<open>.\r\n\<close>, so that
  the bytes sent between \<open>DATA\<close> and that final line are exactly the bytes of the
  cache file; the reply to the final line is captured.
\<close>

theorem cache_streamed_verbatim:
  assumes "\<forall>sent d. net_send_ret e sent d = int (length d)"
    and "\<forall>off. \<not> cache_read_fails e off"
    and "cache_open e \<noteq> -1"
    and "net_recv w = Some ack # Some r # rest"
    and "ack \<noteq> [] \<and> length ack < 4096 \<and> starts_with (c_str ack) ''354''"
    and "r \<noteq> [] \<and> length r < 4096"
  shows "\<exists>chunks wd.
           smtp_expect e (Some (snprintf_str (''DATA'' @ CRLF))) ''354'' (s, fd, w) =
             Inr (Cont (s, fd, wd)) \<and>
           smtp_body e (s, fd, wd) =
             Inr (Cont (Some (c_str r), s, cache_open e,
                        w\<lparr>net_sent := net_sent w @ [''DATA'' @ CRLF] @ chunks @ [''.'' @ CRLF],
                          net_recv := rest\<rparr>)) \<and>
           concat chunks = cache_file e \<and>
           (\<forall>c\<in>set chunks. c \<noteq> [] \<and> length c \<le> 4096)"
proof -
  define wd where "wd = w\<lparr>net_sent := net_sent w @ [''DATA'' @ CRLF], net_recv := Some r # rest\<rparr>"
  have data: "smtp_expect e (Some (snprintf_str (''DATA'' @ CRLF))) ''354'' (s, fd, w) =
                Inr (Cont (s, fd, wd))"
    using smtp_command_reply [OF assms(1), of "snprintf_str (''DATA'' @ CRLF)" w ack
        "Some r # rest" "Some ''354''" False] assms(4,5)
    by (simp add: smtp_expect_def snprintf_str_def CRLF_def wd_def)
  obtain chunks where
    run: "stream_cache e 0 wd = Cont (wd\<lparr>net_sent := net_sent wd @ chunks\<rparr>)"
    and cat: "concat chunks = cache_file e"
    and sz: "\<forall>c\<in>set chunks. c \<noteq> [] \<and> length c \<le> 4096"
    using stream_cache_complete [OF assms(1,2), of 0 wd] by auto
  have dot: "smtp_command e (wd\<lparr>net_sent := net_sent wd @ chunks\<rparr>)
               (Some (snprintf_str (CHR ''.'' # CRLF))) None True =
             Inr (0, Some (c_str r),
                  w\<lparr>net_sent := net_sent w @ [''DATA'' @ CRLF] @ chunks @ [''.'' @ CRLF],
                    net_recv := rest\<rparr>)"
    using smtp_command_reply [OF assms(1), of "snprintf_str (''.'' @ CRLF)"
        "wd\<lparr>net_sent := net_sent wd @ chunks\<rparr>" r rest None True] assms(6)
    by (simp add: snprintf_str_def CRLF_def wd_def)
  have "smtp_body e (s, fd, wd) =
          Inr (Cont (Some (c_str r), s, cache_open e,
                     w\<lparr>net_sent := net_sent w @ [''DATA'' @ CRLF] @ chunks @ [''.'' @ CRLF],
                       net_recv := rest\<rparr>))"
    using assms(3) by (simp add: smtp_body_def run dot)
  with data cat sz show ?thesis
    by blast
qed

theorem cache_streamed_verbatim_witness:
  "\<exists>chunks wd.
     smtp_expect (env0\<lparr>cache_file := ''Subject: hi'' @ CRLF @ CRLF @ ''body'' @ CRLF\<rparr>)
         (Some (snprintf_str (''DATA'' @ CRLF))) ''354''
         (9, -1, world0\<lparr>net_recv := [Some ''354 go ahead'', Some ''250 queued'']\<rparr>) =
       Inr (Cont (9, -1, wd)) \<and>
     smtp_body (env0\<lparr>cache_file := ''Subject: hi'' @ CRLF @ CRLF @ ''body'' @ CRLF\<rparr>)
         (9, -1, wd) =
       Inr (Cont (Some ''250 queued'', 9, 10,
                  world0\<lparr>net_sent := [''DATA'' @ CRLF] @ chunks @ [''.'' @ CRLF]\<rparr>)) \<and>
     concat chunks = ''Subject: hi'' @ CRLF @ CRLF @ ''body'' @ CRLF"
proof -
  have sends: "\<forall>sent d. net_send_ret
      (env0\<lparr>cache_file := ''Subject: hi'' @ CRLF @ CRLF @ ''body'' @ CRLF\<rparr>) sent d =
      int (length d)"
    by (simp add: env0_def)
  have reads: "\<forall>off. \<not> cache_read_fails
      (env0\<lparr>cache_file := ''Subject: hi'' @ CRLF @ CRLF @ ''body'' @ CRLF\<rparr>) off"
    by (simp add: env0_def)
  have opened: "cache_open
      (env0\<lparr>cache_file := ''Subject: hi'' @ CRLF @ CRLF @ ''body'' @ CRLF\<rparr>) \<noteq> -1"
    by (simp add: env0_def)
  have recv: "net_recv (world0\<lparr>net_recv := [Some ''354 go ahead'', Some ''250 queued'']\<rparr>) =
      Some ''354 go ahead'' # Some ''250 queued'' # []"
    by simp
  have ack: "''354 go ahead'' \<noteq> [] \<and> length ''354 go ahead'' < 4096 \<and>
      starts_with (c_str ''354 go ahead'') ''354''"
    by (simp add: starts_with_def c_str_def NUL_def)
  have r: "''250 queued'' \<noteq> [] \<and> length ''250 queued'' < 4096"
    by simp
  show ?thesis
    using cache_streamed_verbatim [OF sends reads opened recv ack r, of 9 "-1"]
    by (simp add: env0_def world0_def c_str_def NUL_def) blast
qed

section \<open>The bypass when no filter command is configured\<close>

text \<open>
  Claim C5 says that with \<open>filter_type\<close> not reject and no filter command, \<open>check_data\<close>
  accepts the DATA command, logs a warning, spools the body and commits delivery with
  the configured header, so that the body delivered equals the body received with the
  header inserted. As stated this does not hold: each step is a framework call that can
  fail, and a failure ends the callback with \<open>-1\<close>. Here \<open>start_data\<close> fails: no warning
  is logged, nothing is spooled and nothing is delivered.
\<close>

theorem no_command_start_data_fails:
  "cb_check_data default_pxstate (env0\<lparr>sp_ret := (\<lambda>c. if c = Sp_start_data then -1 else 0)\<rparr>)
      sp0 [] world0 =
     Inr (-1, world0\<lparr>sp_calls := [Sp_start_data]\<rparr>) \<and>
   fw_run (env0\<lparr>sp_ret := (\<lambda>c. if c = Sp_start_data then -1 else 0)\<rparr>)
       (\<lambda>h b. (case h of None \<Rightarrow> [] | Some l \<Rightarrow> l @ CRLF) @ b)
       (''Subject: hi'' @ CRLF @ CRLF @ ''body'' @ CRLF) [Sp_start_data] ([], None) = ([], None)"
  by (simp add: cb_check_data_def sp_do_def default_pxstate_def FILTER_PIPE_def
        FILTER_REJECT_def env0_def world0_def)

text \<open>
  Claim C5 as amended. When \<open>filter_type\<close> is not reject and no filter command is
  configured, \<open>check_data\<close> calls \<open>start_data\<close>; if that does not fail it logs a warning
  and calls \<open>cache_data\<close>; if that does not fail it calls \<open>done_data\<close> with the configured
  header, and returns 0 if that does not fail either. A call that fails ends the
  callback with \<open>-1\<close> and no further call. When the three calls succeed, the body
  delivered to the server is the body received from the client with the configured
  header inserted (the framework's side being as the specification describes it).
\<close>

theorem no_command_bypass:
  assumes "filter_type g \<noteq> FILTER_REJECT" and "command g = None"
  shows
    "cb_check_data g e sp evs w =
       Inr (if sp_ret e Sp_start_data < 0 then
              (-1, w\<lparr>sp_calls := sp_calls w @ [Sp_start_data]\<rparr>)
            else if sp_ret e Sp_cache_data = -1 then
              (-1, w\<lparr>sp_msgs := sp_msgs w @
                       [(LOG_WARNING, ''no filter command specified. passing message through'')],
                     sp_calls := sp_calls w @ [Sp_start_data, Sp_cache_data]\<rparr>)
            else
              (if sp_ret e (Sp_done_data (header g)) = -1 then -1 else 0,
               w\<lparr>sp_msgs := sp_msgs w @
                      [(LOG_WARNING, ''no filter command specified. passing message through'')],
                    sp_calls := sp_calls w @
                      [Sp_start_data, Sp_cache_data, Sp_done_data (header g)]\<rparr>)) \<and>
     (0 \<le> sp_ret e Sp_start_data \<and> 0 \<le> sp_ret e Sp_cache_data \<and>
      0 \<le> sp_ret e (Sp_done_data (header g)) \<longrightarrow>
        fw_run e ins body [Sp_start_data, Sp_cache_data, Sp_done_data (header g)] ([], None) =
          (body, Some (ins (header g) body)))"
  using assms
  by (simp add: cb_check_data_def sp_do_def sp_message_def Let_def)

theorem no_command_bypass_witness:
  "cb_check_data (default_pxstate\<lparr>header := Some ''X-Filter: ok''\<rparr>) env0 sp0 [] world0 =
     Inr (0, world0\<lparr>sp_msgs :=
                      [(LOG_WARNING, ''no filter command specified. passing message through'')],
                    sp_calls := [Sp_start_data, Sp_cache_data,
                                 Sp_done_data (Some ''X-Filter: ok'')]\<rparr>) \<and>
   fw_run env0 (\<lambda>h b. (case h of None \<Rightarrow> [] | Some l \<Rightarrow> l @ CRLF) @ b)
       (''Subject: hi'' @ CRLF @ CRLF @ ''body'' @ CRLF)
       [Sp_start_data, Sp_cache_data, Sp_done_data (Some ''X-Filter: ok'')] ([], None) =
     (''Subject: hi'' @ CRLF @ CRLF @ ''body'' @ CRLF,
      Some (''X-Filter: ok'' @ CRLF @ ''Subject: hi'' @ CRLF @ CRLF @ ''body'' @ CRLF))"
proof -
  have g: "filter_type (default_pxstate\<lparr>header := Some ''X-Filter: ok''\<rparr>) \<noteq> FILTER_REJECT"
    "command (default_pxstate\<lparr>header := Some ''X-Filter: ok''\<rparr>) = None"
    by (simp_all add: default_pxstate_def FILTER_PIPE_def FILTER_REJECT_def)
  show ?thesis
    using no_command_bypass [OF g, of env0 sp0 "[]" world0
        "\<lambda>h b. (case h of None \<Rightarrow> [] | Some l \<Rightarrow> l @ CRLF) @ b"
        "''Subject: hi'' @ CRLF @ CRLF @ ''body'' @ CRLF"]
    by (simp add: env0_def world0_def default_pxstate_def del: fw_run.simps)
qed

section \<open>The rejection reason and the last line of the stream\<close>

lemma isspace_NL [simp]: "isspace NL"
  by (simp add: isspace_def NL_def)

lemma trim_end_append_ws:
  "\<exists>ws. data = trim_end data @ ws \<and> list_all isspace ws"
proof -
  have "rev data = takeWhile isspace (rev data) @ dropWhile isspace (rev data)"
    by simp
  then have "data = rev (dropWhile isspace (rev data)) @ rev (takeWhile isspace (rev data))"
    by (metis rev_append rev_rev_ident)
  moreover have "list_all isspace (rev (takeWhile isspace (rev data)))"
    by (simp add: list_all_iff) (meson set_takeWhileD)
  ultimately show ?thesis
    by (auto simp: trim_end_def)
qed

lemma trim_end_last:
  "trim_end data \<noteq> [] \<Longrightarrow> \<not> isspace (last (trim_end data))"
proof -
  assume ne: "trim_end data \<noteq> []"
  then have "dropWhile isspace (rev data) \<noteq> []"
    by (simp add: trim_end_def)
  then have "\<not> isspace (hd (dropWhile isspace (rev data)))"
    by (rule hd_dropWhile)
  then show ?thesis
    using ne by (simp add: trim_end_def last_rev)
qed

lemma trim_end_snoc:
  "trim_end (xs @ [c]) = (if isspace c then trim_end xs else xs @ [c])"
  by (simp add: trim_end_def)

lemma trim_end_id: "xs \<noteq> [] \<Longrightarrow> \<not> isspace (last xs) \<Longrightarrow> trim_end xs = xs"
  by (induction xs rule: rev_induct) (simp_all add: trim_end_snoc)

lemma trim_end_append_blank: "list_all isspace ws \<Longrightarrow> trim_end (xs @ ws) = trim_end xs"
proof (induction ws rule: rev_induct)
  case Nil
  show ?case by simp
next
  case (snoc c ws)
  then show ?case
    using trim_end_snoc [of "xs @ ws" c] by simp
qed

lemma trim_end_blank: "list_all isspace ws \<Longrightarrow> trim_end ws = []"
  using trim_end_append_blank [of ws "[]"] by (simp add: trim_end_def)

lemma walk_back_spec:
  "n \<le> length data \<Longrightarrow>
     walk_back data n nl =
       (length (trim_end (take n data)),
        nl \<or> NL \<in> set (drop (length (trim_end (take n data))) (take n data)))"
proof (induction n arbitrary: nl)
  case 0
  show ?case by (simp add: trim_end_def)
next
  case (Suc n)
  then have n: "n < length data" by simp
  have tk: "take (Suc n) data = take n data @ [data ! n]"
    using n by (simp add: take_Suc_conv_app_nth)
  show ?case
  proof (cases "isspace (data ! n)")
    case True
    have le: "length (trim_end (take n data)) \<le> n"
      using trim_end_append_ws [of "take n data"] n
      by (metis length_append length_take le_add1 min.absorb2 less_imp_le_nat)
    have "drop (length (trim_end (take n data))) (take n data @ [data ! n]) =
            drop (length (trim_end (take n data))) (take n data) @ [data ! n]"
      using le n by simp
    then show ?thesis
      using True Suc.IH [of "nl \<or> data ! n = NL"] n
      by (auto simp: tk trim_end_snoc)
  next
    case False
    then show ?thesis
      using n by (simp add: tk trim_end_snoc)
  qed
qed

lemma blank_trim_end: "blank data \<longleftrightarrow> trim_end data = []"
proof
  assume "blank data"
  then show "trim_end data = []"
    by (simp add: blank_def trim_end_blank)
next
  assume "trim_end data = []"
  then show "blank data"
    using trim_end_append_ws [of data] by (auto simp: blank_def)
qed

lemma walk_back_newline_chunk:
  assumes "data \<noteq> []" and "last data = NL"
  shows "walk_back data (length data) False = (length (trim_end data), True)"
proof -
  obtain ws where ws: "data = trim_end data @ ws" "list_all isspace ws"
    using trim_end_append_ws by blast
  have "ws \<noteq> []"
  proof
    assume "ws = []"
    with ws have "trim_end data = data" by simp
    with assms trim_end_last [of data] show False by simp
  qed
  then have "last ws = NL"
    using ws(1) assms(2) by (metis last_appendR)
  then have "NL \<in> set ws"
    using \<open>ws \<noteq> []\<close> last_in_set by metis
  moreover have "drop (length (trim_end data)) data = ws"
    using ws(1) by (metis append_eq_conv_conj)
  ultimately show ?thesis
    by (simp add: walk_back_spec)
qed

lemma take_trim_end: "take (length (trim_end data)) data = trim_end data"
  using trim_end_append_ws [of data] by (metis append_eq_conv_conj)

lemma brm_blank_chunk:
  assumes "data \<noteq> []" and "last data = NL" and "blank data"
  shows "snd (buffer_reject_message stray data buf n) = strlcat buf [NL] n"
  using assms
  by (simp add: buffer_reject_message_def walk_back_newline_chunk blank_trim_end)

lemma brm_text_chunk:
  assumes "data \<noteq> []" and "last data = NL" and "\<not> blank data"
    and "buf = [] \<or> last buf = NL"
  shows "snd (buffer_reject_message stray data buf n) =
           strlcat (strlcat [] (chunk_line data) n) [NL] n"
proof -
  have t: "0 < length (trim_end data)"
    using assms(3) by (simp add: blank_trim_end)
  have reset: "(if (if int (length buf) - 1 < 0 then stray else buf ! nat (int (length buf) - 1)) = NL
                then [] else buf) = []"
  proof (cases "buf = []")
    case True
    then show ?thesis by simp
  next
    case False
    with assms(4) have "last buf = NL" by simp
    moreover have "buf ! nat (int (length buf) - 1) = last buf"
      using False by (simp add: last_conv_nth nat_diff_distrib')
    ultimately show ?thesis
      using False by simp
  qed
  show ?thesis
    using t reset
    by (simp add: buffer_reject_message_def walk_back_newline_chunk [OF assms(1,2)]
          take_trim_end chunk_line_def Let_def split: option.splits)
qed

lemma strsep_nl_nonempty [simp]: "strsep_nl s \<noteq> []"
  by (induction s) (auto split: list.splits)

lemma strsep_nl_split: "strsep_nl (a @ NL # b) = strsep_nl a @ strsep_nl b"
  by (induction a) (auto split: list.splits)

lemma strsep_nl_line: "NL \<notin> set a \<Longrightarrow> strsep_nl a = [a]"
  by (induction a) auto

lemma strsep_nl_pieces: "l \<in> set (strsep_nl s) \<Longrightarrow> set l \<subseteq> set s"
proof (induction s arbitrary: l)
  case Nil
  then show ?case by simp
next
  case (Cons c cs)
  show ?case
  proof (cases "c = NL")
    case True
    with Cons show ?thesis by auto
  next
    case False
    obtain t ts where ts: "strsep_nl cs = t # ts"
      by (cases "strsep_nl cs") auto
    with False Cons.prems have "l = c # t \<or> l \<in> set ts"
      by auto
    then show ?thesis
      using Cons.IH [of t] Cons.IH [of l] ts by auto
  qed
qed

lemma blank_pieces: "blank v \<Longrightarrow> l \<in> set (strsep_nl v) \<Longrightarrow> blank l"
  using strsep_nl_pieces [of l v] by (auto simp: blank_def list_all_iff)

lemma text_lines_blank: "blank v \<Longrightarrow> text_lines v = []"
  by (auto simp: text_lines_def filter_empty_conv dest: blank_pieces in_set_butlastD)

text \<open>The lines seen in a stream that ends with a newline, followed by a chunk that
  ends with a newline, are the lines of the one and then those of the other.\<close>

lemma butlast_strsep_nl_snoc: "butlast (strsep_nl (s @ [NL])) = strsep_nl s"
  using strsep_nl_split [of s "[]"] by simp

lemma text_lines_append:
  assumes "s = [] \<or> last s = NL"
  shows "text_lines (s @ c) = text_lines s @ text_lines c"
proof (cases "s = []")
  case True
  then show ?thesis by (simp add: text_lines_def)
next
  case False
  with assms obtain s0 where s: "s = s0 @ [NL]"
    by (metis append_butlast_last_id)
  have "strsep_nl (s @ c) = strsep_nl s0 @ strsep_nl c"
    using strsep_nl_split [of s0 c] by (simp add: s)
  then have "butlast (strsep_nl (s @ c)) = strsep_nl s0 @ butlast (strsep_nl c)"
    by (simp add: butlast_append)
  moreover have "butlast (strsep_nl s) = strsep_nl s0"
    by (simp add: s butlast_strsep_nl_snoc)
  ultimately show ?thesis
    by (simp add: text_lines_def)
qed

lemma strrchr_absent: "c \<notin> set d \<Longrightarrow> strrchr d c = None"
  by (induction d) auto

lemma strrchr_last: "c \<notin> set q \<Longrightarrow> strrchr (p @ c # q) c = Some (c # q)"
  by (induction p) (auto simp: strrchr_absent)

lemma trim_text_line:
  assumes "x \<noteq> []" and "\<not> isspace (last x)" and "list_all isspace u"
  shows "trim (x @ u) = trim_start x"
proof -
  have ex: "\<exists>c\<in>set x. \<not> isspace c"
    using assms(1,2) last_in_set by blast
  then have ts: "trim_start (x @ u) = trim_start x @ u"
    by (auto simp: trim_start_def dropWhile_append1)
  have ne: "trim_start x \<noteq> []"
    using ex by (auto simp: trim_start_def dropWhile_eq_Nil_conv)
  obtain pre where "x = pre @ trim_start x"
    unfolding trim_start_def by (metis takeWhile_dropWhile_id)
  then have "last (trim_start x) = last x"
    using ne by (metis last_appendR)
  then have "trim_end (trim_start x) = trim_start x"
    using ne assms(2) by (simp add: trim_end_id)
  then show ?thesis
    by (simp add: trim_def ts trim_end_append_blank assms(3))
qed

lemma chunk_line_is_last_text_line:
  assumes "c \<noteq> []" and "last c = NL" and "\<not> blank c"
  shows "text_lines c \<noteq> [] \<and> trim (last (text_lines c)) = chunk_line c"
proof -
  define d where "d = trim_end c"
  obtain ws where ws: "c = d @ ws" "list_all isspace ws"
    unfolding d_def using trim_end_append_ws by blast
  have d_ne: "d \<noteq> []"
    using assms(3) by (simp add: d_def blank_trim_end)
  have d_last: "\<not> isspace (last d)"
    using d_ne trim_end_last [of c] by (simp add: d_def)
  have "ws \<noteq> []"
  proof
    assume "ws = []"
    with ws d_ne have "last c = last d" by simp
    with d_last assms(2) show False by simp
  qed
  then have "last ws = NL"
    using ws(1) assms(2) by (metis last_appendR)
  then have "NL \<in> set ws"
    using \<open>ws \<noteq> []\<close> last_in_set by metis
  then obtain u v where uv: "ws = u @ NL # v" "NL \<notin> set u"
    by (meson split_list_first)
  have u_ws: "list_all isspace u" and v_ws: "blank v"
    using ws(2) uv(1) by (simp_all add: blank_def)
  have c_eq: "c = (d @ u) @ NL # v"
    by (simp add: ws(1) uv(1))
  have "strsep_nl c = strsep_nl (d @ u) @ strsep_nl v"
    by (subst c_eq) (rule strsep_nl_split)
  then have "butlast (strsep_nl c) = strsep_nl (d @ u) @ butlast (strsep_nl v)"
    by (simp add: butlast_append)
  moreover have "filter (\<lambda>l. \<not> blank l) (butlast (strsep_nl v)) = []"
    using text_lines_blank [OF v_ws] by (simp add: text_lines_def)
  ultimately have tl: "text_lines c = filter (\<lambda>l. \<not> blank l) (strsep_nl (d @ u))"
    by (simp add: text_lines_def)
  show ?thesis
  proof (cases "NL \<in> set d")
    case False
    then have "strsep_nl (d @ u) = [d @ u]"
      using uv(2) by (simp add: strsep_nl_line)
    moreover have "\<not> blank (d @ u)"
      using d_ne d_last last_in_set [of d] by (auto simp: blank_def list_all_iff)
    ultimately have "text_lines c = [d @ u]"
      by (simp add: tl)
    moreover have "chunk_line c = trim_start d"
      using False by (simp add: chunk_line_def d_def [symmetric] strrchr_absent)
    ultimately show ?thesis
      using trim_text_line [OF d_ne d_last u_ws] by simp
  next
    case True
    then obtain p q where pq: "d = p @ NL # q" "NL \<notin> set q"
      by (meson split_list_last)
    have q_ne: "q \<noteq> []"
    proof
      assume "q = []"
      with pq have "last d = NL" by simp
      with d_last show False by simp
    qed
    then have q_last: "\<not> isspace (last q)"
      using d_last pq(1) by simp
    have "strsep_nl (d @ u) = strsep_nl p @ strsep_nl (q @ u)"
      using strsep_nl_split [of p "q @ u"] by (simp add: pq(1))
    also have "strsep_nl (q @ u) = [q @ u]"
      using pq(2) uv(2) by (simp add: strsep_nl_line)
    finally have sp: "strsep_nl (d @ u) = strsep_nl p @ [q @ u]" .
    have "\<not> blank (q @ u)"
      using q_ne q_last last_in_set [of q] by (auto simp: blank_def list_all_iff)
    then have "text_lines c = filter (\<lambda>l. \<not> blank l) (strsep_nl p) @ [q @ u]"
      by (simp add: tl sp)
    moreover have "chunk_line c = trim_start q"
      using strrchr_last [OF pq(2), of p]
      by (simp add: chunk_line_def d_def [symmetric] pq(1) trim_start_def)
    ultimately show ?thesis
      using trim_text_line [OF q_ne q_last u_ws] by simp
  qed
qed

lemma trim_end_idem: "trim_end (trim_end x) = trim_end x"
proof (cases "trim_end x = []")
  case True
  then show ?thesis by (simp add: trim_end_def)
next
  case False
  then show ?thesis
    using trim_end_last [of x] by (simp add: trim_end_id)
qed

lemma trim_end_trim: "trim_end (trim l) = trim l"
  by (simp add: trim_def trim_end_idem)

lemma strlcat_bound: "length dst < n \<Longrightarrow> length (strlcat dst src n) < n"
  by (auto simp: strlcat_def)

lemma brm_bound:
  assumes "length buf < n"
  shows "length (snd (buffer_reject_message stray data buf n)) < n"
proof -
  have n: "0 < n" using assms by simp
  have e: "length (strlcat [] src n) < n" for src
    using n by (simp add: strlcat_bound)
  show ?thesis
    using assms e
    by (auto simp: buffer_reject_message_def Let_def strlcat_bound
          split: prod.splits option.splits if_splits)
qed

lemma fold_reject_bound:
  "length buf < 256 \<Longrightarrow> length (fold_reject stray chunks buf) < 256"
  by (induction chunks arbitrary: buf) (simp_all add: brm_bound)

lemma tracks_start: "tracks [] []"
  by (simp add: tracks_def last_line_seen_def text_lines_def trim_def trim_end_def trim_start_def)

lemma tracks_step:
  assumes inv: "tracks acc s"
    and c: "c \<noteq> []" "last c = NL"
    and short: "\<not> blank c \<longrightarrow> length (chunk_line c) < 255"
  shows "tracks (snd (buffer_reject_message stray c acc 256)) (s @ c)"
proof (cases "blank c")
  case True
  have acc': "snd (buffer_reject_message stray c acc 256) = strlcat acc [NL] 256"
    using c True by (rule brm_blank_chunk)
  have lines: "last_line_seen (s @ c) = last_line_seen s"
    using inv True by (simp add: last_line_seen_def text_lines_append tracks_def text_lines_blank)
  show ?thesis
  proof (cases "length acc < 255")
    case True
    then have "strlcat acc [NL] 256 = acc @ [NL]"
      by (simp add: strlcat_def)
    then show ?thesis
      using inv True c by (simp add: acc' lines tracks_def trim_end_snoc)
  next
    case False
    with inv have "length acc = 255"
      by (simp add: tracks_def)
    then have "strlcat acc [NL] 256 = acc"
      by (simp add: strlcat_def)
    then show ?thesis
      using inv c by (simp add: acc' lines tracks_def)
  qed
next
  case False
  have reset: "acc = [] \<or> last acc = NL"
    using inv by (simp add: tracks_def)
  have len: "length (chunk_line c) < 255"
    using short False by simp
  have "snd (buffer_reject_message stray c acc 256) =
          strlcat (strlcat [] (chunk_line c) 256) [NL] 256"
    using c False reset by (rule brm_text_chunk)
  also have "\<dots> = chunk_line c @ [NL]"
    using len by (simp add: strlcat_def)
  finally have acc': "snd (buffer_reject_message stray c acc 256) = chunk_line c @ [NL]" .
  have cl: "text_lines c \<noteq> []" "trim (last (text_lines c)) = chunk_line c"
    using chunk_line_is_last_text_line [OF c False] by simp_all
  have "text_lines (s @ c) = text_lines s @ text_lines c"
    using inv by (simp add: text_lines_append tracks_def)
  then have lines: "last_line_seen (s @ c) = last (text_lines c)"
    using cl(1) by (simp add: last_line_seen_def)
  have "trim_end (chunk_line c @ [NL]) = chunk_line c"
    using trim_end_trim [of "last (text_lines c)"] by (simp add: trim_end_snoc cl(2))
  then show ?thesis
    using len c by (simp add: acc' lines cl(2) tracks_def)
qed

lemma tracks_fold:
  "tracks acc s \<Longrightarrow>
   (\<forall>c\<in>set chunks. c \<noteq> [] \<and> last c = NL \<and> (\<not> blank c \<longrightarrow> length (chunk_line c) < 255)) \<Longrightarrow>
   tracks (fold_reject stray chunks acc) (s @ concat chunks)"
proof (induction chunks arbitrary: acc s)
  case Nil
  then show ?case by simp
next
  case (Cons c cs)
  have "tracks (snd (buffer_reject_message stray c acc 256)) (s @ c)"
    using Cons.prems by (intro tracks_step) simp_all
  then have "tracks (fold_reject stray cs (snd (buffer_reject_message stray c acc 256)))
               ((s @ c) @ concat cs)"
    using Cons.prems by (intro Cons.IH) simp_all
  then show ?case by simp
qed

lemma text_lines_concat:
  "(\<forall>c\<in>set chunks. c \<noteq> [] \<and> last c = NL) \<Longrightarrow>
     text_lines (concat chunks) = concat (map text_lines chunks)"
proof (induction chunks)
  case Nil
  show ?case by (simp add: text_lines_def)
next
  case (Cons c cs)
  then show ?case
    by (simp add: text_lines_append)
qed

lemma chunk_line_short:
  assumes good: "\<forall>c\<in>set chunks. c \<noteq> [] \<and> last c = NL"
    and short: "\<forall>l\<in>set (strsep_nl (concat chunks)). length (trim l) < 255"
    and c: "c \<in> set chunks" "\<not> blank c"
  shows "length (chunk_line c) < 255"
proof -
  have cl: "text_lines c \<noteq> []" "trim (last (text_lines c)) = chunk_line c"
    using chunk_line_is_last_text_line [of c] good c by simp_all
  have "last (text_lines c) \<in> set (text_lines c)"
    using cl(1) by simp
  then have "last (text_lines c) \<in> set (text_lines (concat chunks))"
    using c(1) by (auto simp: text_lines_concat [OF good])
  then have "last (text_lines c) \<in> set (strsep_nl (concat chunks))"
    by (auto simp: text_lines_def dest: in_set_butlastD)
  with short cl(2) show ?thesis
    by auto
qed

text \<open>A line of 300 bytes fills the accumulator; its newline and the next line find no
  room.\<close>

lemma fold_reject_overflow:
  "fold_reject stray [replicate 300 (CHR ''x'') @ [NL], ''ok'' @ [NL]] [] =
     replicate 255 (CHR ''x'')"
proof -
  have x: "\<not> isspace (CHR ''x'')"
    by (simp add: isspace_def)
  have te: "trim_end (replicate 300 (CHR ''x'') @ [NL]) = replicate 300 (CHR ''x'')"
    using x by (simp add: trim_end_snoc trim_end_id)
  have nl: "NL \<notin> set (replicate 300 (CHR ''x''))"
    by (simp add: NL_def)
  have cl: "chunk_line (replicate 300 (CHR ''x'') @ [NL]) = replicate 300 (CHR ''x'')"
    using x by (simp add: chunk_line_def te strrchr_absent [OF nl] trim_start_def)
  have nb: "\<not> blank (replicate 300 (CHR ''x'') @ [NL])"
    by (simp add: blank_trim_end te)
  have first: "snd (buffer_reject_message stray (replicate 300 (CHR ''x'') @ [NL]) [] 256) =
                 replicate 255 (CHR ''x'')"
    using brm_text_chunk [of "replicate 300 (CHR ''x'') @ [NL]" "[]" stray 256] nb
    by (simp add: cl strlcat_def)
  have second: "snd (buffer_reject_message stray (''ok'' @ [NL]) (replicate 255 (CHR ''x'')) 256) =
                  replicate 255 (CHR ''x'')"
    by (simp add: buffer_reject_message_def isspace_def NL_def trim_start_def strlcat_def
          nth_replicate)
  have "fold_reject stray [replicate 300 (CHR ''x'') @ [NL], ''ok'' @ [NL]] [] =
          snd (buffer_reject_message stray (''ok'' @ [NL])
                 (snd (buffer_reject_message stray (replicate 300 (CHR ''x'') @ [NL]) [] 256)) 256)"
    by (simp only: fold_reject.simps)
  then show ?thesis
    by (simp only: first second)
qed

text \<open>
  Claim C3 says that the accumulator is always null-terminated, holds at most 255 bytes
  of payload, and after each fold holds the last non-empty line of the concatenated
  stream as of the most recent newline seen. The last part does not hold as stated:
  \<^item> the accumulator depends on where the stream is cut into chunks: a chunk that
    continues a line loses its leading whitespace, so \<open>foo\<close> followed by \<open> bar\<close> and a
    newline leaves \<open>foobar\<close>, where the line of the stream is \<open>foo bar\<close>;
  \<^item> a complete line is held together with the newline that ended it;
  \<^item> text after the last newline of a chunk replaces the line seen before: after
    \<open>a\<close>, a newline and \<open>b\<close> the accumulator holds \<open>b\<close>, where the last line that a
    newline has ended is \<open>a\<close>;
  \<^item> a line that fills the accumulator leaves no room for its newline, and the next
    line is appended to the full accumulator and lost.
\<close>

theorem reject_reason_depends_on_chunks:
  "fold_reject (stray_byte env0) [''foo'', '' bar'' @ [NL]] [] = ''foobar'' @ [NL] \<and>
   last_line_seen (concat [''foo'', '' bar'' @ [NL]]) = ''foo bar'' \<and>
   fold_reject (stray_byte env0) [''foo bar'' @ [NL]] [] = ''foo bar'' @ [NL] \<and>
   fold_reject (stray_byte env0) [''a'' @ [NL] @ ''b''] [] = ''b'' \<and>
   last_line_seen (concat [''a'' @ [NL] @ ''b'']) = ''a'' \<and>
   fold_reject (stray_byte env0) [replicate 300 (CHR ''x'') @ [NL], ''ok'' @ [NL]] [] =
     replicate 255 (CHR ''x'') \<and>
   last_line_seen (concat [replicate 300 (CHR ''x'') @ [NL], ''ok'' @ [NL]]) = ''ok''"
proof -
  have a: "fold_reject (stray_byte env0) [''foo'', '' bar'' @ [NL]] [] = ''foobar'' @ [NL]"
    "fold_reject (stray_byte env0) [''foo bar'' @ [NL]] [] = ''foo bar'' @ [NL]"
    "fold_reject (stray_byte env0) [''a'' @ [NL] @ ''b''] [] = ''b''"
    by (simp_all add: buffer_reject_message_def isspace_def NL_def NUL_def trim_start_def
          strlcat_def env0_def)
  have b: "last_line_seen (concat [''foo'', '' bar'' @ [NL]]) = ''foo bar''"
    "last_line_seen (concat [''a'' @ [NL] @ ''b'']) = ''a''"
    by (simp_all add: last_line_seen_def text_lines_def blank_def NL_def isspace_def)
  have nl: "NL \<notin> set (replicate 300 (CHR ''x''))"
    by (simp add: NL_def)
  have "strsep_nl (replicate 300 (CHR ''x'') @ NL # (''ok'' @ [NL])) =
          strsep_nl (replicate 300 (CHR ''x'')) @ strsep_nl (''ok'' @ [NL])"
    by (rule strsep_nl_split)
  then have "text_lines (concat [replicate 300 (CHR ''x'') @ [NL], ''ok'' @ [NL]]) =
               [replicate 300 (CHR ''x''), ''ok'']"
    by (simp add: text_lines_def strsep_nl_line [OF nl] blank_def isspace_def NL_def
          list_all_iff)
  then have c: "last_line_seen (concat [replicate 300 (CHR ''x'') @ [NL], ''ok'' @ [NL]]) = ''ok''"
    by (simp add: last_line_seen_def)
  from a b c fold_reject_overflow [of "stray_byte env0"] show ?thesis
    by blast
qed

text \<open>
  Claim C3 as amended. For every sequence of stderr chunks folded by
  \<open>buffer_reject_message\<close> into the accumulator of capacity 256 bytes, which starts
  empty, and whatever byte lies in front of the accumulator: the accumulator is always
  null-terminated and holds at most 255 bytes of payload. When every chunk ends with a
  newline and every line of the stream is shorter than 255 bytes once trimmed of the
  whitespace around it, then after each fold the accumulator, trimmed of its trailing
  whitespace (as \<open>final_reject_message\<close> trims it), is the last line with text that the
  stream folded so far holds, trimmed of the whitespace around it.
\<close>

theorem reject_reason_accumulator:
  "length (fold_reject stray chunks []) < 256 \<and>
   ((\<forall>c\<in>set chunks. c \<noteq> [] \<and> last c = NL) \<and>
    (\<forall>l\<in>set (strsep_nl (concat chunks)). length (trim l) < 255) \<longrightarrow>
      (\<forall>n. trim_end (fold_reject stray (take n chunks) []) =
             trim (last_line_seen (concat (take n chunks)))))"
proof (intro conjI impI allI)
  show "length (fold_reject stray chunks []) < 256"
    by (simp add: fold_reject_bound)
next
  fix n
  assume h: "(\<forall>c\<in>set chunks. c \<noteq> [] \<and> last c = NL) \<and>
    (\<forall>l\<in>set (strsep_nl (concat chunks)). length (trim l) < 255)"
  then have "\<forall>c\<in>set chunks. c \<noteq> [] \<and> last c = NL \<and>
               (\<not> blank c \<longrightarrow> length (chunk_line c) < 255)"
    using chunk_line_short [of chunks] by blast
  then have "\<forall>c\<in>set (take n chunks). c \<noteq> [] \<and> last c = NL \<and>
               (\<not> blank c \<longrightarrow> length (chunk_line c) < 255)"
    by (meson in_set_takeD)
  then have "tracks (fold_reject stray (take n chunks) []) ([] @ concat (take n chunks))"
    by (intro tracks_fold tracks_start)
  then show "trim_end (fold_reject stray (take n chunks) []) =
               trim (last_line_seen (concat (take n chunks)))"
    by (simp add: tracks_def)
qed

theorem reject_reason_accumulator_witness:
  "length (fold_reject (stray_byte env0)
      [''warn: slow'' @ [NL], ''  blocked: virus found'' @ CRLF, [NL]] []) < 256 \<and>
   trim_end (fold_reject (stray_byte env0)
      [''warn: slow'' @ [NL], ''  blocked: virus found'' @ CRLF, [NL]] []) =
     ''blocked: virus found'' \<and>
   trim_end (fold_reject (stray_byte env0) [''warn: slow'' @ [NL]] []) = ''warn: slow''"
proof -
  have good: "\<forall>c\<in>set [''warn: slow'' @ [NL], ''  blocked: virus found'' @ CRLF, [NL]].
                c \<noteq> [] \<and> last c = NL"
    by (simp add: CRLF_def NL_def)
  have short: "\<forall>l\<in>set (strsep_nl (concat
                 [''warn: slow'' @ [NL], ''  blocked: virus found'' @ CRLF, [NL]])).
                 length (trim l) < 255"
    by (simp add: CRLF_def NL_def trim_def trim_end_def trim_start_def isspace_def)
  have l3: "trim (last_line_seen (concat (take 3
              [''warn: slow'' @ [NL], ''  blocked: virus found'' @ CRLF, [NL]]))) =
            ''blocked: virus found''"
    by (simp add: last_line_seen_def text_lines_def blank_def CRLF_def NL_def trim_def
          trim_end_def trim_start_def isspace_def)
  have l1: "trim (last_line_seen (concat (take 1
              [''warn: slow'' @ [NL], ''  blocked: virus found'' @ CRLF, [NL]]))) =
            ''warn: slow''"
    by (simp add: last_line_seen_def text_lines_def blank_def CRLF_def NL_def trim_def
          trim_end_def trim_start_def isspace_def)
  from reject_reason_accumulator [of "stray_byte env0"
        "[''warn: slow'' @ [NL], ''  blocked: virus found'' @ CRLF, [NL]]"] good short
  have len: "length (fold_reject (stray_byte env0)
      [''warn: slow'' @ [NL], ''  blocked: virus found'' @ CRLF, [NL]] []) < 256"
    and all: "\<And>n. trim_end (fold_reject (stray_byte env0)
           (take n [''warn: slow'' @ [NL], ''  blocked: virus found'' @ CRLF, [NL]]) []) =
         trim (last_line_seen (concat
           (take n [''warn: slow'' @ [NL], ''  blocked: virus found'' @ CRLF, [NL]])))"
    by blast+
  from all [of 3] l3 have a3: "trim_end (fold_reject (stray_byte env0)
      [''warn: slow'' @ [NL], ''  blocked: virus found'' @ CRLF, [NL]] []) =
     ''blocked: virus found''"
    by simp
  from all [of 1] l1 have a1: "trim_end (fold_reject (stray_byte env0) [''warn: slow'' @ [NL]] []) =
     ''warn: slow''"
    by simp
  from len a3 a1 show ?thesis by blast
qed

end
